theory Spec2Isabelle
  imports Complex_Main "HOL-Library.AList" "HOL-Library.Multiset"
begin

section \<open>Two notebooks: a classification panel and a sequence of statistical tests\<close>

text \<open>
  The repository is two notebooks. The first loads the wine data, splits it 80/20, scales
  the features and scores five classifiers; the second loads the diabetes data and runs
  t-tests, a confidence interval, a one-way ANOVA and a regression. A notebook is a list of
  cells run in order against one set of variables. A cell is modelled as a function from
  the variables to the variables as the cell leaves them, together with either the
  exception that ended the cell or what the cell printed: an assignment made before a
  later statement raises stays made.

  Conventions of the model:
  \<^item> a Python float is a real number: rounding and infinities are outside the model, and
    so is \<open>nan\<close> as a value of the data (both datasets are complete); the one \<open>nan\<close>
    the cells can compute from complete data, the median of no value, is \<open>None\<close>;
  \<^item> a two-dimensional array is the list of its columns, one list per feature;
  \<^item> the numeric routines of scikit-learn, NumPy, pandas, SciPy and statsmodels are not
    code of this repository. Where the notebooks' behaviour depends on one, it is modelled
    by the behaviour its documentation states, and what the documentation leaves open
    (the numbers a seeded generator draws, the fitted classifiers, the test statistics)
    is a parameter of the cell that calls it.
\<close>

subsection \<open>Exceptions\<close>

datatype error =
    KeyError string
  | NameError string
  | ValueError
  | TypeError
  | PatsyError

text \<open>Sequencing of two steps, the second of which runs only when the first returned.\<close>

definition and_then :: "error + 'a \<Rightarrow> ('a \<Rightarrow> error + 'b) \<Rightarrow> error + 'b" where
  "and_then r f = (case r of Inl e \<Rightarrow> Inl e | Inr v \<Rightarrow> f v)"

text \<open>
  A statement of a cell that may raise: when it does, the cell ends there with the
  variables as they are at that point, and otherwise the cell goes on with the value.
\<close>

definition step :: "'s \<Rightarrow> error + 'a \<Rightarrow> ('a \<Rightarrow> 's \<times> (error + 'o)) \<Rightarrow> 's \<times> (error + 'o)" where
  "step s r k = (case r of Inl e \<Rightarrow> (s, Inl e) | Inr v \<Rightarrow> k v)"

subsection \<open>Data frames\<close>

text \<open>
  A column holds floats, integer class labels or category labels. A frame is its row
  labels (the pandas index) and its named columns in order; row \<open>k\<close> is the \<open>k\<close>-th
  entry of every column.
\<close>

datatype column = Numeric "real list" | Labels "int list" | Categorical "string list"

datatype cell = Num real | Lab int | Cat string

fun col_cells :: "column \<Rightarrow> cell list" where
  "col_cells (Numeric xs) = map Num xs"
| "col_cells (Labels xs) = map Lab xs"
| "col_cells (Categorical xs) = map Cat xs"

definition col_length :: "column \<Rightarrow> nat" where
  "col_length c = length (col_cells c)"

record frame =
  index :: "nat list"
  cols :: "(string \<times> column) list"

definition wf_frame :: "frame \<Rightarrow> bool" where
  "wf_frame d = (distinct (index d) \<and> distinct (map fst (cols d)) \<and>
     list_all (\<lambda>nc. col_length (snd nc) = length (index d)) (cols d))"

text \<open>The rows of a frame: each row label with the named values of that row.\<close>

definition rows :: "frame \<Rightarrow> (nat \<times> (string \<times> cell) list) list" where
  "rows d = map (\<lambda>k. (index d ! k, map (\<lambda>nc. (fst nc, col_cells (snd nc) ! k)) (cols d)))
              [0..<length (index d)]"

text \<open>
  \<^verbatim>\<open>pd.DataFrame(data, columns=names)\<close>: a fresh frame with the default index; as
  many names as the array has columns are required.
\<close>

definition n_samples :: "real list list \<Rightarrow> nat" where
  "n_samples a = (case a of [] \<Rightarrow> 0 | c # _ \<Rightarrow> length c)"

definition DataFrame :: "real list list \<Rightarrow> string list \<Rightarrow> error + frame" where
  "DataFrame a names =
     (if length names \<noteq> length a then Inl ValueError
      else Inr \<lparr>index = [0..<n_samples a], cols = zip names (map Numeric a)\<rparr>)"

text \<open>\<^verbatim>\<open>df[name]\<close> raises KeyError for a name that is no column.\<close>

definition getitem :: "frame \<Rightarrow> string \<Rightarrow> error + column" where
  "getitem d name = (case map_of (cols d) name of None \<Rightarrow> Inl (KeyError name) | Some c \<Rightarrow> Inr c)"

definition get_numeric :: "frame \<Rightarrow> string \<Rightarrow> error + real list" where
  "get_numeric d name =
     and_then (getitem d name) (\<lambda>c. case c of Numeric xs \<Rightarrow> Inr xs | _ \<Rightarrow> Inl TypeError)"

text \<open>
  \<^verbatim>\<open>df[name] = values\<close>: an existing column is replaced where it stands, a new one is
  appended; values of another length than the index are refused.
\<close>

definition setitem :: "frame \<Rightarrow> string \<Rightarrow> column \<Rightarrow> error + frame" where
  "setitem d name c =
     (if col_length c \<noteq> length (index d) then Inl ValueError
      else Inr (d\<lparr>cols := AList.update name c (cols d)\<rparr>))"

text \<open>\<^verbatim>\<open>df.drop(name, axis=1)\<close> returns a new frame without the column.\<close>

definition drop_column :: "frame \<Rightarrow> string \<Rightarrow> error + frame" where
  "drop_column d name =
     (if name \<in> set (map fst (cols d)) then Inr (d\<lparr>cols := AList.delete name (cols d)\<rparr>)
      else Inl (KeyError name))"

text \<open>Selection of rows: by a boolean mask (\<^verbatim>\<open>df[mask]\<close>) and by positions (\<^verbatim>\<open>iloc\<close>).\<close>

definition mask_list :: "bool list \<Rightarrow> 'a list \<Rightarrow> 'a list" where
  "mask_list m xs = map snd (filter fst (zip m xs))"

fun mask_column :: "bool list \<Rightarrow> column \<Rightarrow> column" where
  "mask_column m (Numeric xs) = Numeric (mask_list m xs)"
| "mask_column m (Labels xs) = Labels (mask_list m xs)"
| "mask_column m (Categorical xs) = Categorical (mask_list m xs)"

definition select_rows :: "frame \<Rightarrow> bool list \<Rightarrow> frame" where
  "select_rows d m =
     \<lparr>index = mask_list m (index d), cols = map (\<lambda>nc. (fst nc, mask_column m (snd nc))) (cols d)\<rparr>"

definition take_list :: "'a list \<Rightarrow> nat list \<Rightarrow> 'a list" where
  "take_list xs ps = map (\<lambda>p. xs ! p) ps"

fun take_column :: "column \<Rightarrow> nat list \<Rightarrow> column" where
  "take_column (Numeric xs) ps = Numeric (take_list xs ps)"
| "take_column (Labels xs) ps = Labels (take_list xs ps)"
| "take_column (Categorical xs) ps = Categorical (take_list xs ps)"

definition take_rows :: "frame \<Rightarrow> nat list \<Rightarrow> frame" where
  "take_rows d ps =
     \<lparr>index = take_list (index d) ps, cols = map (\<lambda>nc. (fst nc, take_column (snd nc) ps)) (cols d)\<rparr>"

text \<open>A series is a column of floats with its row labels.\<close>

type_synonym series = "(nat \<times> real) list"

definition series_of :: "frame \<Rightarrow> string \<Rightarrow> error + series" where
  "series_of d name = and_then (get_numeric d name) (\<lambda>xs. Inr (zip (index d) xs))"

subsection \<open>The datasets\<close>

text \<open>
  \<^verbatim>\<open>load_wine()\<close> and \<^verbatim>\<open>load_diabetes()\<close> return a bunch: the feature array, the
  feature names and the target. The values are scikit-learn's; the model takes the bunch
  as an argument.
\<close>

record 'l bunch =
  data :: "real list list"
  feature_names :: "string list"
  target :: "'l list"

subsection \<open>The variables of a notebook\<close>

text \<open>
  Both notebooks bind the loaded data to \<^verbatim>\<open>df\<close>. A notebook's state is the record of
  the variables that one cell assigns and another reads; the classification notebook
  extends it below. A variable that only the cell assigning it reads (a classifier, its
  predictions, a test statistic) is a bound variable of that cell's definition.
\<close>

record notebook =
  df :: frame

section \<open>Library routines with a documented result\<close>

subsection \<open>StandardScaler\<close>

text \<open>
  scikit-learn documents the standard score as \<open>z = (x - u) / s\<close>, with \<open>u\<close> the mean
  and \<open>s\<close> the standard deviation of the training samples (the biased estimator, dividing
  by the number of samples). The scaling factor is 1 instead for a feature that
  scikit-learn takes for constant: one whose variance is at most
  \<open>n * eps * var + (n * mean * eps)\<^sup>2\<close>, with \<open>n\<close> the number of samples and \<open>eps\<close> the
  machine epsilon of a 64-bit float. That covers a variance of zero, and also a variance
  that is small against the square of the mean. An array with no sample or no feature is
  refused. The fitted attributes \<^verbatim>\<open>mean_\<close>, \<^verbatim>\<open>var_\<close> and \<^verbatim>\<open>scale_\<close> are the fields of
  the record below.
\<close>

definition mean :: "real list \<Rightarrow> real" where
  "mean xs = sum_list xs / real (length xs)"

definition variance :: "real list \<Rightarrow> real" where
  "variance xs = mean (map (\<lambda>x. (x - mean xs)\<^sup>2) xs)"

definition std :: "real list \<Rightarrow> real" where
  "std xs = sqrt (variance xs)"

definition eps :: real where
  "eps = 1 / 2 ^ 52"

definition is_constant_feature :: "real \<Rightarrow> real \<Rightarrow> nat \<Rightarrow> bool" where
  "is_constant_feature var u n = (var \<le> real n * eps * var + (real n * u * eps)\<^sup>2)"

definition handle_zeros_in_scale :: "real \<Rightarrow> bool \<Rightarrow> real" where
  "handle_zeros_in_scale s constant_mask = (if constant_mask then 1 else s)"

record scaler =
  scaler_mean :: "real list"
  scaler_var :: "real list"
  scaler_scale :: "real list"

definition check_array :: "real list list \<Rightarrow> error + real list list" where
  "check_array a = (if a = [] \<or> n_samples a = 0 then Inl ValueError else Inr a)"

definition feature_scale :: "nat \<Rightarrow> real list \<Rightarrow> real" where
  "feature_scale n c =
     handle_zeros_in_scale (std c) (is_constant_feature (variance c) (mean c) n)"

definition scaler_fit :: "real list list \<Rightarrow> error + scaler" where
  "scaler_fit a =
     and_then (check_array a) (\<lambda>a.
       Inr \<lparr>scaler_mean = map mean a, scaler_var = map variance a,
            scaler_scale = map (feature_scale (n_samples a)) a\<rparr>)"

definition transform :: "scaler \<Rightarrow> real list list \<Rightarrow> error + real list list" where
  "transform sc a =
     and_then (check_array a) (\<lambda>a.
       if length a \<noteq> length (scaler_mean sc) then Inl ValueError
       else Inr (map (\<lambda>(c, u, s). map (\<lambda>x. (x - u) / s) c) (zip a (zip (scaler_mean sc) (scaler_scale sc)))))"

definition fit_transform :: "real list list \<Rightarrow> error + scaler \<times> real list list" where
  "fit_transform a =
     and_then (scaler_fit a) (\<lambda>sc. and_then (transform sc a) (\<lambda>z. Inr (sc, z)))"

text \<open>A frame handed to scikit-learn is read as an array of floats.\<close>

fun to_numpy :: "(string \<times> column) list \<Rightarrow> error + real list list" where
  "to_numpy [] = Inr []"
| "to_numpy ((name, Numeric xs) # cs) = and_then (to_numpy cs) (\<lambda>a. Inr (xs # a))"
| "to_numpy ((name, Labels xs) # cs) = and_then (to_numpy cs) (\<lambda>a. Inr (map real_of_int xs # a))"
| "to_numpy ((name, Categorical xs) # cs) = Inl ValueError"

subsection \<open>train_test_split\<close>

text \<open>
  With a float \<^verbatim>\<open>test_size\<close> strictly between 0 and 1 and no \<^verbatim>\<open>train_size\<close>, the
  test set has \<open>ceil(test_size * n)\<close> rows and the training set the remaining ones; a split
  that would leave the training set empty is refused, and so are inputs of different
  lengths. The rows are then shuffled: the test rows are the first positions of the
  shuffle, the training rows the following ones.

  The shuffle is drawn from a NumPy generator. A generator has a state; drawing a
  permutation of \<open>n\<close> positions returns it with the state that follows. With an integer
  \<^verbatim>\<open>random_state\<close> the split draws from a fresh generator seeded with it and leaves the
  global generator alone; with \<^verbatim>\<open>random_state=None\<close> it draws from the global generator,
  whose state moves on. The generator's algorithm is a parameter.
\<close>

record 'g numpy_random =
  RandomState :: "nat \<Rightarrow> 'g"
  permutation :: "'g \<Rightarrow> nat \<Rightarrow> nat list \<times> 'g"

type_synonym 'a indexed = "(nat \<times> 'a) list"

definition train_test_split ::
  "'g numpy_random \<Rightarrow> 'g \<Rightarrow> frame \<Rightarrow> int indexed \<Rightarrow> real \<Rightarrow> nat option \<Rightarrow>
   (error + frame \<times> frame \<times> int indexed \<times> int indexed) \<times> 'g" where
  "train_test_split np g X y test_size random_state =
     (let n = length (index X)
      in if length y \<noteq> n then (Inl ValueError, g)
         else if \<not> (0 < test_size \<and> test_size < 1) then (Inl ValueError, g)
         else let n_test = nat \<lceil>test_size * real n\<rceil>; n_train = n - n_test
              in if n_train = 0 then (Inl ValueError, g)
                 else case (case random_state of
                              None \<Rightarrow> permutation np g n
                            | Some seed \<Rightarrow> (fst (permutation np (RandomState np seed) n), g)) of
                        (p, g') \<Rightarrow>
                          let ind_test = take n_test p;
                              ind_train = take n_train (drop n_test p)
                          in (Inr (take_rows X ind_train, take_rows X ind_test,
                                   take_list y ind_train, take_list y ind_test), g'))"

subsection \<open>Classification metrics\<close>

text \<open>
  \<^verbatim>\<open>accuracy_score\<close> is the fraction of predictions equal to the true label;
  label lists of different lengths are refused. \<^verbatim>\<open>classification_report\<close> lists, for
  every label that occurs in the true or the predicted labels, precision \<open>tp / (tp + fp)\<close>,
  recall \<open>tp / (tp + fn)\<close>, their harmonic mean F1 and the support (the number of true
  occurrences), each ratio being 0 where its denominator is 0; the weighted average
  weighs each label by its support. (For an empty evaluation set scikit-learn's ratios
  are \<open>nan\<close>; the split never produces one, and the properties below are stated for a
  non-empty one.)
\<close>

definition accuracy_score :: "int list \<Rightarrow> int list \<Rightarrow> error + real" where
  "accuracy_score y_true y_pred =
     (if length y_true \<noteq> length y_pred then Inl ValueError
      else Inr (real (length (filter (\<lambda>(t, p). t = p) (zip y_true y_pred))) /
                real (length y_true)))"

definition unique_labels :: "int list \<Rightarrow> int list \<Rightarrow> int list" where
  "unique_labels y_true y_pred = sort (remdups (y_true @ y_pred))"

definition support :: "int list \<Rightarrow> int \<Rightarrow> nat" where
  "support y_true c = length (filter (\<lambda>t. t = c) y_true)"

definition true_positives :: "int list \<Rightarrow> int list \<Rightarrow> int \<Rightarrow> nat" where
  "true_positives y_true y_pred c = length (filter (\<lambda>(t, p). t = c \<and> p = c) (zip y_true y_pred))"

definition precision :: "int list \<Rightarrow> int list \<Rightarrow> int \<Rightarrow> real" where
  "precision y_true y_pred c =
     (if support y_pred c = 0 then 0
      else real (true_positives y_true y_pred c) / real (support y_pred c))"

definition recall :: "int list \<Rightarrow> int list \<Rightarrow> int \<Rightarrow> real" where
  "recall y_true y_pred c =
     (if support y_true c = 0 then 0
      else real (true_positives y_true y_pred c) / real (support y_true c))"

definition f1_score :: "int list \<Rightarrow> int list \<Rightarrow> int \<Rightarrow> real" where
  "f1_score y_true y_pred c =
     (let p = precision y_true y_pred c; r = recall y_true y_pred c
      in if p + r = 0 then 0 else 2 * p * r / (p + r))"

definition weighted_avg :: "int list \<Rightarrow> int list \<Rightarrow> (int \<Rightarrow> real) \<Rightarrow> real" where
  "weighted_avg y_true labels metric =
     sum_list (map (\<lambda>c. real (support y_true c) * metric c) labels) /
     sum_list (map (\<lambda>c. real (support y_true c)) labels)"

record report_row =
  label :: int
  row_precision :: real
  row_recall :: real
  row_f1 :: real
  row_support :: nat

record report =
  per_class :: "report_row list"
  accuracy :: real
  weighted_precision :: real
  weighted_recall :: real
  weighted_f1 :: real

definition classification_report :: "int list \<Rightarrow> int list \<Rightarrow> error + report" where
  "classification_report y_true y_pred =
     and_then (accuracy_score y_true y_pred) (\<lambda>acc.
       let labels = unique_labels y_true y_pred
       in Inr \<lparr>per_class = map (\<lambda>c. \<lparr>label = c,
                                      row_precision = precision y_true y_pred c,
                                      row_recall = recall y_true y_pred c,
                                      row_f1 = f1_score y_true y_pred c,
                                      row_support = support y_true c\<rparr>) labels,
               accuracy = acc,
               weighted_precision = weighted_avg y_true labels (precision y_true y_pred),
               weighted_recall = weighted_avg y_true labels (recall y_true y_pred),
               weighted_f1 = weighted_avg y_true labels (f1_score y_true y_pred)\<rparr>)"

section \<open>The classification notebook\<close>

subsection \<open>Loading, splitting, scaling\<close>

definition load_wine_cell :: "int bunch \<Rightarrow> error + notebook" where
  "load_wine_cell wine =
     and_then (DataFrame (data wine) (feature_names wine)) (\<lambda>d0.
     and_then (setitem d0 ''target'' (Labels (target wine))) (\<lambda>d.
       Inr \<lparr>df = d\<rparr>))"

text \<open>
  The wine target holds integer class labels; \<^verbatim>\<open>y = df['target']\<close> is read as a series
  of labels, and a target column of another kind is outside the model (an error here).
\<close>

definition label_series :: "frame \<Rightarrow> string \<Rightarrow> error + int indexed" where
  "label_series d name =
     and_then (getitem d name)
       (\<lambda>c. case c of Labels xs \<Rightarrow> Inr (zip (index d) xs) | _ \<Rightarrow> Inl TypeError)"

text \<open>
  \<^verbatim>\<open>X = df.drop('target', axis=1); y = df['target']\<close>, then
  \<^verbatim>\<open>train_test_split(X, y, test_size=0.2, random_state=42)\<close>. The seed is given, so
  the global generator (the argument \<open>g\<close>) stays as it is and only the four parts are
  returned.
\<close>

definition split_cell ::
  "'g numpy_random \<Rightarrow> 'g \<Rightarrow> notebook \<Rightarrow> error + frame \<times> frame \<times> int indexed \<times> int indexed" where
  "split_cell np g s =
     and_then (drop_column (df s) ''target'') (\<lambda>X.
     and_then (label_series (df s) ''target'') (\<lambda>y.
       fst (train_test_split np g X y 0.2 (Some 42))))"

text \<open>
  \<^verbatim>\<open>scaler = StandardScaler(); X_train = scaler.fit_transform(X_train);
  X_test = scaler.transform(X_test)\<close>. Both arguments are frames: the scaler remembers
  the feature names of the frame it was fitted on and refuses to transform a frame whose
  names, or their order, are different.
\<close>

definition scale_cell ::
  "frame \<Rightarrow> frame \<Rightarrow> error + scaler \<times> real list list \<times> real list list" where
  "scale_cell X_train0 X_test0 =
     and_then (to_numpy (cols X_train0)) (\<lambda>a.
     and_then (fit_transform a) (\<lambda>fitted.
       if map fst (cols X_test0) \<noteq> map fst (cols X_train0) then Inl ValueError
       else and_then (to_numpy (cols X_test0)) (\<lambda>b.
            and_then (transform (fst fitted) b) (\<lambda>z.
              Inr (fst fitted, snd fitted, z)))))"

text \<open>
  The variables the model cells read and write. An accuracy that no cell has assigned
  yet is \<open>None\<close>; reading it raises NameError.
\<close>

record wine_nb = notebook +
  X_train :: "real list list"
  X_test :: "real list list"
  y_train :: "int indexed"
  y_test :: "int indexed"
  accuracy_log_reg :: "real option"
  accuracy_dtree :: "real option"
  accuracy_rf :: "real option"
  accuracy_svm :: "real option"
  accuracy_knn :: "real option"
  model_comparison :: "(nat \<times> string \<times> real) list option"

definition preprocess :: "'g numpy_random \<Rightarrow> 'g \<Rightarrow> notebook \<Rightarrow> error + wine_nb" where
  "preprocess np g s =
     and_then (split_cell np g s) (\<lambda>(X_train0, X_test0, y_train0, y_test0).
     and_then (scale_cell X_train0 X_test0) (\<lambda>(sc, a, b).
       Inr \<lparr>df = df s, X_train = a, X_test = b, y_train = y_train0, y_test = y_test0,
            accuracy_log_reg = None, accuracy_dtree = None, accuracy_rf = None,
            accuracy_svm = None, accuracy_knn = None, model_comparison = None\<rparr>))"

subsection \<open>The five model cells\<close>

text \<open>
  The classifiers are scikit-learn's. \<open>fit\<close> trains one on the training arrays and
  \<open>predict\<close> labels the rows of an array with the fitted model; either may raise. The
  five model cells have one shape: fit, predict, assign the accuracy to the cell's own
  variable, print it, and print the classification report of the same labels. No statement
  is inside a \<^verbatim>\<open>try\<close>. What a model cell prints is the name it prints the accuracy
  under, the accuracy and the report.
\<close>

datatype classifier =
    LogisticRegression nat
  | DecisionTreeClassifier nat
  | RandomForestClassifier nat nat
  | SVC string nat
  | KNeighborsClassifier nat

record 'm estimators =
  fit :: "classifier \<Rightarrow> real list list \<Rightarrow> int list \<Rightarrow> error + 'm"
  predict :: "'m \<Rightarrow> real list list \<Rightarrow> error + int list"

datatype wine_printed =
    Scores string real report
  | Comparison "(nat \<times> string \<times> real) list"

definition model_cell ::
  "'m estimators \<Rightarrow> classifier \<Rightarrow> string \<Rightarrow> (real \<Rightarrow> wine_nb \<Rightarrow> wine_nb) \<Rightarrow>
   wine_nb \<Rightarrow> wine_nb \<times> (error + wine_printed)" where
  "model_cell lib clf name assign s =
     step s (fit lib clf (X_train s) (map snd (y_train s))) (\<lambda>fitted.
     step s (predict lib fitted (X_test s)) (\<lambda>y_pred.
     step s (accuracy_score (map snd (y_test s)) y_pred) (\<lambda>acc.
       let s' = assign acc s
       in step s' (classification_report (map snd (y_test s)) y_pred) (\<lambda>rep.
            (s', Inr (Scores name acc rep))))))"

definition log_reg_cell :: "'m estimators \<Rightarrow> wine_nb \<Rightarrow> wine_nb \<times> (error + wine_printed)" where
  "log_reg_cell lib =
     model_cell lib (LogisticRegression 200) ''Logistic Regression''
       (\<lambda>acc s. s\<lparr>accuracy_log_reg := Some acc\<rparr>)"

definition dtree_cell :: "'m estimators \<Rightarrow> wine_nb \<Rightarrow> wine_nb \<times> (error + wine_printed)" where
  "dtree_cell lib =
     model_cell lib (DecisionTreeClassifier 42) ''Decision Tree''
       (\<lambda>acc s. s\<lparr>accuracy_dtree := Some acc\<rparr>)"

definition rf_cell :: "'m estimators \<Rightarrow> wine_nb \<Rightarrow> wine_nb \<times> (error + wine_printed)" where
  "rf_cell lib =
     model_cell lib (RandomForestClassifier 100 42) ''Random Forest''
       (\<lambda>acc s. s\<lparr>accuracy_rf := Some acc\<rparr>)"

definition svm_cell :: "'m estimators \<Rightarrow> wine_nb \<Rightarrow> wine_nb \<times> (error + wine_printed)" where
  "svm_cell lib =
     model_cell lib (SVC ''linear'' 42) ''SVM''
       (\<lambda>acc s. s\<lparr>accuracy_svm := Some acc\<rparr>)"

definition knn_cell :: "'m estimators \<Rightarrow> wine_nb \<Rightarrow> wine_nb \<times> (error + wine_printed)" where
  "knn_cell lib =
     model_cell lib (KNeighborsClassifier 5) ''KNN''
       (\<lambda>acc s. s\<lparr>accuracy_knn := Some acc\<rparr>)"

text \<open>
  What a model cell computes before it assigns: the accuracy and the report of the
  predictions, or the exception of the first statement that raises.
\<close>

definition fit_predict_score :: "'m estimators \<Rightarrow> classifier \<Rightarrow> wine_nb \<Rightarrow> error + real \<times> report" where
  "fit_predict_score lib clf s =
     and_then (fit lib clf (X_train s) (map snd (y_train s))) (\<lambda>fitted.
     and_then (predict lib fitted (X_test s)) (\<lambda>y_pred.
     and_then (accuracy_score (map snd (y_test s)) y_pred) (\<lambda>acc.
     and_then (classification_report (map snd (y_test s)) y_pred) (\<lambda>rep.
       Inr (acc, rep)))))"

subsection \<open>The comparison cell\<close>

text \<open>
  The cell builds a frame of the five names and the five accuracy variables, read in
  that order, and sorts it with \<^verbatim>\<open>sort_values(by='Accuracy', ascending=False)\<close>. The
  sort is pandas' (with its default \<^verbatim>\<open>kind='quicksort'\<close>); it is a parameter here. A
  row is its label in the unsorted frame, the model's name and its accuracy.
\<close>

definition read_var :: "string \<Rightarrow> 'a option \<Rightarrow> error + 'a" where
  "read_var name v = (case v of None \<Rightarrow> Inl (NameError name) | Some x \<Rightarrow> Inr x)"

definition compare_cell ::
  "((nat \<times> string \<times> real) list \<Rightarrow> (nat \<times> string \<times> real) list) \<Rightarrow>
   wine_nb \<Rightarrow> wine_nb \<times> (error + wine_printed)" where
  "compare_cell sort_values s =
     step s (read_var ''accuracy_log_reg'' (accuracy_log_reg s)) (\<lambda>a0.
     step s (read_var ''accuracy_dtree'' (accuracy_dtree s)) (\<lambda>a1.
     step s (read_var ''accuracy_rf'' (accuracy_rf s)) (\<lambda>a2.
     step s (read_var ''accuracy_svm'' (accuracy_svm s)) (\<lambda>a3.
     step s (read_var ''accuracy_knn'' (accuracy_knn s)) (\<lambda>a4.
       let comparison = sort_values
              [(0, ''Logistic Regression'', a0), (1, ''Decision Tree'', a1),
               (2, ''Random Forest'', a2), (3, ''SVM'', a3), (4, ''KNN'', a4)]
       in (s\<lparr>model_comparison := Some comparison\<rparr>, Inr (Comparison comparison)))))))"

subsection \<open>Running the cells\<close>

text \<open>
  Run from top to bottom, a notebook stops at the first cell that raises and shows that
  exception. Run one cell at a time, the cell after one that raised can still be run; each
  cell shows its own exception, if any. Either way the variables are as the cells left
  them.
\<close>

fun run_all :: "('s \<Rightarrow> 's \<times> (error + 'o)) list \<Rightarrow> 's \<Rightarrow> 's \<times> error option" where
  "run_all [] s = (s, None)"
| "run_all (c # cs) s =
     (case c s of (s', Inl e) \<Rightarrow> (s', Some e) | (s', Inr out) \<Rightarrow> run_all cs s')"

fun run_each :: "('s \<Rightarrow> 's \<times> (error + 'o)) list \<Rightarrow> 's \<Rightarrow> 's \<times> error option list" where
  "run_each [] s = (s, [])"
| "run_each (c # cs) s =
     (case c s of (s', r) \<Rightarrow>
        (case run_each cs s' of (s'', es) \<Rightarrow>
           (s'', (case r of Inl e \<Rightarrow> Some e | Inr out \<Rightarrow> None) # es)))"

text \<open>
  The model cells in the notebook's order, with the classifier each one constructs and
  the accuracy variable it assigns; the panel is these cells and the comparison cell.
\<close>

definition model_cells :: "'m estimators \<Rightarrow> (wine_nb \<Rightarrow> wine_nb \<times> (error + wine_printed)) list" where
  "model_cells lib = [log_reg_cell lib, dtree_cell lib, rf_cell lib, svm_cell lib, knn_cell lib]"

definition panel_classifiers :: "classifier list" where
  "panel_classifiers =
     [LogisticRegression 200, DecisionTreeClassifier 42, RandomForestClassifier 100 42,
      SVC ''linear'' 42, KNeighborsClassifier 5]"

definition accuracy_vars :: "(string \<times> (wine_nb \<Rightarrow> real option)) list" where
  "accuracy_vars =
     [(''accuracy_log_reg'', accuracy_log_reg), (''accuracy_dtree'', accuracy_dtree),
      (''accuracy_rf'', accuracy_rf), (''accuracy_svm'', accuracy_svm),
      (''accuracy_knn'', accuracy_knn)]"

definition panel ::
  "'m estimators \<Rightarrow> ((nat \<times> string \<times> real) list \<Rightarrow> (nat \<times> string \<times> real) list) \<Rightarrow>
   (wine_nb \<Rightarrow> wine_nb \<times> (error + wine_printed)) list" where
  "panel lib sort_values = model_cells lib @ [compare_cell sort_values]"

section \<open>The statistics notebook\<close>

text \<open>
  The routines of SciPy, pandas and statsmodels whose numbers the notebook prints. Each
  t-test returns the pair (statistic, p-value); \<open>qcut\<close> returns one label per value and
  raises when its bin edges are not unique; \<open>anova_lm\<close> stands for fitting the model and
  tabulating it (F and its p-value) and \<open>ols\<close> for the regression's coefficients; both
  may raise.
\<close>

record stats_lib =
  ttest_1samp :: "real list \<Rightarrow> real \<Rightarrow> real \<times> real"
  ttest_ind :: "real list \<Rightarrow> real list \<Rightarrow> real \<times> real"
  ttest_rel :: "real list \<Rightarrow> real list \<Rightarrow> real \<times> real"
  sem :: "real list \<Rightarrow> real"
  t_interval :: "real \<Rightarrow> int \<Rightarrow> real \<Rightarrow> real \<Rightarrow> real \<times> real"
  qcut :: "real list \<Rightarrow> nat \<Rightarrow> string list \<Rightarrow> error + string list"
  anova_lm :: "real list \<Rightarrow> string list \<Rightarrow> error + real \<times> real"
  ols :: "real list \<Rightarrow> real list list \<Rightarrow> error + real list"

text \<open>
  What a cell prints, line by line: a fixed line of text, the line with a test's
  statistic and p-value, the line with the confidence interval, the ANOVA table (its F and
  the p-value of F) or the regression summary (its coefficients).
\<close>

datatype printed =
    Text string
  | TStat real real
  | Interval real real
  | Table real real
  | Summary "real list"

fun texts :: "printed list \<Rightarrow> string list" where
  "texts [] = []"
| "texts (Text line # ps) = line # texts ps"
| "texts (p # ps) = texts ps"

subsection \<open>Loading\<close>

definition load_diabetes_cell :: "real bunch \<Rightarrow> error + notebook" where
  "load_diabetes_cell diabetes =
     and_then (DataFrame (data diabetes) (feature_names diabetes)) (\<lambda>d0.
     and_then (setitem d0 ''target'' (Numeric (target diabetes))) (\<lambda>d.
       Inr \<lparr>df = d\<rparr>))"

subsection \<open>The verdict lines\<close>

text \<open>
  Each t-test cell ends with \<^verbatim>\<open>if p_value < 0.05: print(...) else: print(...)\<close>.
  The functions below return the line printed. No other cell of the notebook has such a
  statement.
\<close>

definition one_sample_verdict :: "real \<Rightarrow> string" where
  "one_sample_verdict p_value =
     (if p_value < 0.05
      then ''Reject the null hypothesis: The mean is significantly different from 0.''
      else ''Fail to reject the null hypothesis: The mean is not significantly different from 0.'')"

definition two_sample_verdict :: "real \<Rightarrow> string" where
  "two_sample_verdict p_value =
     (if p_value < 0.05
      then ''Reject the null hypothesis: The means of the two groups are significantly different.''
      else ''Fail to reject the null hypothesis: The means of the two groups are not significantly different.'')"

definition paired_verdict :: "real \<Rightarrow> string" where
  "paired_verdict p_value =
     (if p_value < 0.05
      then ''Reject the null hypothesis: The means of the paired samples are significantly different.''
      else ''Fail to reject the null hypothesis: The means of the paired samples are not significantly different.'')"

subsection \<open>The t-test cells\<close>

text \<open>
  \<^verbatim>\<open>Series.median()\<close>: the middle value of the sorted values, the mean of the two
  middle values when their number is even, and \<open>nan\<close> (here \<open>None\<close>) for no value at all.
  A comparison with \<open>nan\<close> is false.
\<close>

definition median :: "real list \<Rightarrow> real option" where
  "median xs =
     (let s = sort xs; n = length xs
      in if n = 0 then None
         else if odd n then Some (s ! (n div 2))
         else Some ((s ! (n div 2 - 1) + s ! (n div 2)) / 2))"

definition le_float :: "real \<Rightarrow> real option \<Rightarrow> bool" where
  "le_float x m = (case m of None \<Rightarrow> False | Some v \<Rightarrow> x \<le> v)"

definition gt_float :: "real \<Rightarrow> real option \<Rightarrow> bool" where
  "gt_float x m = (case m of None \<Rightarrow> False | Some v \<Rightarrow> x > v)"

definition one_sample_cell :: "stats_lib \<Rightarrow> notebook \<Rightarrow> notebook \<times> (error + printed list)" where
  "one_sample_cell lib s =
     step s (get_numeric (df s) ''bmi'') (\<lambda>bmi.
       case ttest_1samp lib bmi 0 of (t_stat, p_value) \<Rightarrow>
         (s, Inr [Text ''One-Sample t-Test for BMI:'', TStat t_stat p_value,
                  Text (one_sample_verdict p_value)]))"

text \<open>
  The two groups of the two-sample test:
  \<^verbatim>\<open>group1 = df[df['target'] <= median_target]['bmi']\<close> and
  \<^verbatim>\<open>group2 = df[df['target'] > median_target]['bmi']\<close>.
\<close>

definition median_split :: "frame \<Rightarrow> error + series \<times> series" where
  "median_split d =
     and_then (get_numeric d ''target'') (\<lambda>target.
       let median_target = median target
       in and_then (series_of (select_rows d (map (\<lambda>t. le_float t median_target) target)) ''bmi'')
            (\<lambda>group1.
          and_then (series_of (select_rows d (map (\<lambda>t. gt_float t median_target) target)) ''bmi'')
            (\<lambda>group2. Inr (group1, group2))))"

definition two_sample_cell :: "stats_lib \<Rightarrow> notebook \<Rightarrow> notebook \<times> (error + printed list)" where
  "two_sample_cell lib s =
     step s (median_split (df s)) (\<lambda>groups.
       case ttest_ind lib (map snd (fst groups)) (map snd (snd groups)) of (t_stat, p_value) \<Rightarrow>
         (s, Inr [Text ''Two-Sample t-Test for BMI:'', TStat t_stat p_value,
                  Text (two_sample_verdict p_value)]))"

definition paired_cell :: "stats_lib \<Rightarrow> notebook \<Rightarrow> notebook \<times> (error + printed list)" where
  "paired_cell lib s =
     step s (get_numeric (df s) ''bp'') (\<lambda>bp.
     step s (get_numeric (df s) ''s1'') (\<lambda>s1.
       case ttest_rel lib bp s1 of (t_stat, p_value) \<Rightarrow>
         (s, Inr [Text ''Paired t-Test for BP and S1:'', TStat t_stat p_value,
                  Text (paired_verdict p_value)])))"

subsection \<open>Confidence interval, ANOVA and regression\<close>

definition ci_cell :: "stats_lib \<Rightarrow> notebook \<Rightarrow> notebook \<times> (error + printed list)" where
  "ci_cell lib s =
     step s (get_numeric (df s) ''bmi'') (\<lambda>bmi.
       let confidence_level = 0.95; std_err = sem lib bmi
       in case t_interval lib confidence_level (int (length bmi) - 1) (mean bmi) std_err of
            (lower, upper) \<Rightarrow> (s, Inr [Interval lower upper]))"

text \<open>
  \<^verbatim>\<open>df['bmi_quartile'] = pd.qcut(df['bmi'], q=4, labels=["Q1", "Q2", "Q3", "Q4"])\<close>
  assigns a column of the loaded frame; the model \<^verbatim>\<open>target ~ C(bmi_quartile)\<close> is
  then fitted on the frame (a frame without the column \<open>target\<close> makes the formula raise
  patsy's error). When the fit or the table raises, the assignment has already happened.
\<close>

definition anova_cell :: "stats_lib \<Rightarrow> notebook \<Rightarrow> notebook \<times> (error + printed list)" where
  "anova_cell lib s =
     step s (get_numeric (df s) ''bmi'') (\<lambda>bmi.
     step s (qcut lib bmi 4 [''Q1'', ''Q2'', ''Q3'', ''Q4'']) (\<lambda>quartiles.
     step s (setitem (df s) ''bmi_quartile'' (Categorical quartiles)) (\<lambda>d.
       let s' = s\<lparr>df := d\<rparr>
       in step s' (case get_numeric d ''target'' of
                     Inl e \<Rightarrow> Inl PatsyError | Inr ys \<Rightarrow> Inr ys) (\<lambda>target.
          step s' (anova_lm lib target quartiles) (\<lambda>anova_table.
            (s', Inr [Text ''One-Way ANOVA for Target across BMI Quartiles:'',
                      Table (fst anova_table) (snd anova_table)]))))))"

text \<open>
  \<^verbatim>\<open>sm.add_constant(X)\<close> puts a column of ones before the data, unless the data already
  is a constant column other than zero, which it returns as it is.
\<close>

definition add_constant :: "real list \<Rightarrow> real list list" where
  "add_constant xs =
     (if xs \<noteq> [] \<and> (\<forall>x\<in>set xs. x = hd xs) \<and> hd xs \<noteq> 0 then [xs]
      else [map (\<lambda>x. 1) xs, xs])"

definition regression_cell :: "stats_lib \<Rightarrow> notebook \<Rightarrow> notebook \<times> (error + printed list)" where
  "regression_cell lib s =
     step s (get_numeric (df s) ''bmi'') (\<lambda>X.
     step s (get_numeric (df s) ''target'') (\<lambda>y.
     step s (ols lib y (add_constant X)) (\<lambda>params.
       (s, Inr [Text ''Simple Linear Regression (BMI vs Target):'', Summary params]))))"

section \<open>Small inputs\<close>

text \<open>Four rows in the shape of the diabetes data, and the frame the loader makes of them.\<close>

definition small_diabetes :: "real bunch" where
  "small_diabetes =
     \<lparr>data = [[0.06, -0.05, 0.04, -0.01], [0.02, -0.03, -0.01, 0.03], [-0.04, -0.01, -0.05, 0.01]],
      feature_names = [''bmi'', ''bp'', ''s1''],
      target = [151, 75, 141, 206]\<rparr>"

definition small_df :: frame where
  "small_df =
     \<lparr>index = [0, 1, 2, 3],
      cols = [(''bmi'', Numeric [0.06, -0.05, 0.04, -0.01]),
              (''bp'', Numeric [0.02, -0.03, -0.01, 0.03]),
              (''s1'', Numeric [-0.04, -0.01, -0.05, 0.01]),
              (''target'', Numeric [151, 75, 141, 206])]\<rparr>"


definition df8 :: frame where
  "df8 =
     \<lparr>index = [0, 1, 2, 3, 4, 5, 6, 7],
      cols = [(''bmi'', Numeric [-1, 1, -0.5, 0.5, -0.25, 0.25, -2, 2]),
              (''bp'', Numeric [0.5, -0.5, 0.25, -0.25, 1, -1, 2, -2]),
              (''s1'', Numeric [-0.5, 0.5, -0.25, 0.25, -1, 1, -2, 2]),
              (''target'', Numeric [50, 60, 70, 80, 150, 160, 170, 180])]\<rparr>"

definition df8_quartiles :: frame where
  "df8_quartiles =
     df8\<lparr>cols := cols df8 @
        [(''bmi_quartile'',
          Categorical [''Q1'', ''Q4'', ''Q2'', ''Q3'', ''Q2'', ''Q3'', ''Q1'', ''Q4''])]\<rparr>"

text \<open>
  Stand-ins for the statistics routines at these eight rows. Every t-test compares equal
  means, so its statistic is 0 and its p-value 1; the quartile labels are the ones
  \<^verbatim>\<open>qcut\<close> gives the eight values of \<open>bmi\<close>; the regression of \<open>target\<close> on \<open>bmi\<close> has
  intercept 115 and slope 60/17, and the ANOVA has F = 1/78. The standard error, the
  interval and the p-value of F only stand for the library's numbers.
\<close>

definition small_stats :: stats_lib where
  "small_stats =
     \<lparr>ttest_1samp = (\<lambda>xs mu. (0, 1)),
      ttest_ind = (\<lambda>xs ys. (0, 1)),
      ttest_rel = (\<lambda>xs ys. (0, 1)),
      sem = (\<lambda>xs. 0.4),
      t_interval = (\<lambda>level dof loc scale. (loc - scale, loc + scale)),
      qcut = (\<lambda>xs q labels. Inr [''Q1'', ''Q4'', ''Q2'', ''Q3'', ''Q2'', ''Q3'', ''Q1'', ''Q4'']),
      anova_lm = (\<lambda>y groups. Inr (1 / 78, 0.99)),
      ols = (\<lambda>y X. Inr [115, 60 / 17])\<rparr>"

text \<open>
  Ten rows in the shape of the wine data: two features that separate two groups of five
  rows. Row 1 lies in the first group and carries the label of the second.
\<close>

definition small_wine :: "int bunch" where
  "small_wine =
     \<lparr>data = [[12, 12, 12, 14, 12, 14, 12, 14, 14, 14], [2, 2, 2, 6, 2, 6, 2, 6, 6, 6]],
      feature_names = [''alcohol'', ''ash''],
      target = [0, 1, 0, 1, 0, 1, 0, 1, 1, 1]\<rparr>"

definition small_wine_df :: frame where
  "small_wine_df =
     \<lparr>index = [0, 1, 2, 3, 4, 5, 6, 7, 8, 9],
      cols = [(''alcohol'', Numeric [12, 12, 12, 14, 12, 14, 12, 14, 14, 14]),
              (''ash'', Numeric [2, 2, 2, 6, 2, 6, 2, 6, 6, 6]),
              (''target'', Labels [0, 1, 0, 1, 0, 1, 0, 1, 1, 1])]\<rparr>"

definition small_X :: frame where
  "small_X =
     \<lparr>index = [0, 1, 2, 3, 4, 5, 6, 7, 8, 9],
      cols = [(''alcohol'', Numeric [12, 12, 12, 14, 12, 14, 12, 14, 14, 14]),
              (''ash'', Numeric [2, 2, 2, 6, 2, 6, 2, 6, 6, 6])]\<rparr>"

definition small_y :: "int indexed" where
  "small_y = [(0, 0), (1, 1), (2, 0), (3, 1), (4, 0), (5, 1), (6, 0), (7, 1), (8, 1), (9, 1)]"

text \<open>
  A stand-in for NumPy's generator: its state counts the draws, and the permutation of
  ten positions is the one \<^verbatim>\<open>RandomState(42)\<close> draws first.
\<close>

definition small_generator :: "nat numpy_random" where
  "small_generator =
     \<lparr>RandomState = (\<lambda>seed. 0),
      permutation = (\<lambda>g n. (if n = 10 then [8, 1, 5, 0, 7, 2, 9, 4, 3, 6] else [0..<n], Suc g))\<rparr>"

text \<open>The four parts of the split of the ten rows, and the variables after scaling them.\<close>

definition small_X_train :: frame where
  "small_X_train =
     \<lparr>index = [5, 0, 7, 2, 9, 4, 3, 6],
      cols = [(''alcohol'', Numeric [14, 12, 14, 12, 14, 12, 14, 12]),
              (''ash'', Numeric [6, 2, 6, 2, 6, 2, 6, 2])]\<rparr>"

definition small_X_test :: frame where
  "small_X_test =
     \<lparr>index = [8, 1], cols = [(''alcohol'', Numeric [14, 12]), (''ash'', Numeric [6, 2])]\<rparr>"

definition small_y_train :: "int indexed" where
  "small_y_train = [(5, 1), (0, 0), (7, 1), (2, 0), (9, 1), (4, 0), (3, 1), (6, 0)]"

definition small_y_test :: "int indexed" where
  "small_y_test = [(8, 1), (1, 1)]"

definition small_wine_nb :: wine_nb where
  "small_wine_nb =
     \<lparr>df = small_wine_df,
      X_train = [[1, -1, 1, -1, 1, -1, 1, -1], [1, -1, 1, -1, 1, -1, 1, -1]],
      X_test = [[1, -1], [1, -1]],
      y_train = small_y_train, y_test = small_y_test,
      accuracy_log_reg = None, accuracy_dtree = None, accuracy_rf = None,
      accuracy_svm = None, accuracy_knn = None, model_comparison = None\<rparr>"

text \<open>The same ten rows with every label 0, and the variables after splitting and scaling.\<close>

definition one_class_df :: frame where
  "one_class_df =
     \<lparr>index = [0, 1, 2, 3, 4, 5, 6, 7, 8, 9],
      cols = [(''alcohol'', Numeric [12, 12, 12, 14, 12, 14, 12, 14, 14, 14]),
              (''ash'', Numeric [2, 2, 2, 6, 2, 6, 2, 6, 6, 6]),
              (''target'', Labels [0, 0, 0, 0, 0, 0, 0, 0, 0, 0])]\<rparr>"

definition one_class_nb :: wine_nb where
  "one_class_nb =
     \<lparr>df = one_class_df,
      X_train = [[1, -1, 1, -1, 1, -1, 1, -1], [1, -1, 1, -1, 1, -1, 1, -1]],
      X_test = [[1, -1], [1, -1]],
      y_train = [(5, 0), (0, 0), (7, 0), (2, 0), (9, 0), (4, 0), (3, 0), (6, 0)],
      y_test = [(8, 0), (1, 0)],
      accuracy_log_reg = None, accuracy_dtree = None, accuracy_rf = None,
      accuracy_svm = None, accuracy_knn = None, model_comparison = None\<rparr>"

text \<open>One row in the shape of the wine data.\<close>

definition one_row_df :: frame where
  "one_row_df =
     \<lparr>index = [0],
      cols = [(''alcohol'', Numeric [12]), (''ash'', Numeric [2]), (''target'', Labels [0])]\<rparr>"

text \<open>
  A stand-in for the five classifiers on these inputs. Trained on labels of one class,
  scikit-learn's logistic regression and support vector classifier refuse to fit
  (ValueError), and the decision tree, the random forest and the nearest-neighbour
  classifier predict that class for every row. Trained on the two groups above, each of
  the five labels a row by the group it lies in, which the sign of its first scaled
  feature tells. A fitted model is the list of the classes it was trained on.
\<close>

definition small_estimators :: "int list estimators" where
  "small_estimators =
     \<lparr>fit = (\<lambda>clf a y. case clf of
                LogisticRegression max_iter \<Rightarrow>
                  if length (remdups y) < 2 then Inl ValueError else Inr (remdups y)
              | SVC k random_state \<Rightarrow>
                  if length (remdups y) < 2 then Inl ValueError else Inr (remdups y)
              | _ \<Rightarrow> Inr (remdups y)),
      predict = (\<lambda>classes a.
                Inr (map (\<lambda>x. if length classes = 1 then hd classes
                               else if x < 0 then 0 else 1) (hd a)))\<rparr>"

text \<open>
  The report of the predictions 1, 0 against the true labels 1, 1 of the two evaluation
  rows: half the predictions are right.
\<close>

definition small_report :: report where
  "small_report =
     \<lparr>per_class =
        [\<lparr>label = 0, row_precision = 0, row_recall = 0, row_f1 = 0, row_support = 0\<rparr>,
         \<lparr>label = 1, row_precision = 1, row_recall = 1 / 2, row_f1 = 2 / 3, row_support = 2\<rparr>],
      accuracy = 1 / 2, weighted_precision = 1, weighted_recall = 1 / 2, weighted_f1 = 2 / 3\<rparr>"

section \<open>Properties\<close>

subsection \<open>Facts about frames\<close>

lemma map_of_map_snd:
  "map_of (map (\<lambda>nc. (fst nc, f (snd nc))) xs) k = map_option f (map_of xs k)"
  by (induction xs) auto

lemma mask_list_Nil [simp]: "mask_list [] xs = []" "mask_list m [] = []"
  by (simp_all add: mask_list_def)

lemma mask_list_Cons [simp]:
  "mask_list (b # m) (x # xs) = (if b then x # mask_list m xs else mask_list m xs)"
  by (simp add: mask_list_def)

lemma length_mask_list:
  "length m = length xs \<Longrightarrow> length (mask_list m xs) = length (filter id m)"
  by (induction m xs rule: list_induct2) auto

lemma zip_mask_list:
  "length m = length xs \<Longrightarrow> length xs = length ys \<Longrightarrow>
   zip (mask_list m xs) (mask_list m ys) = mask_list m (zip xs ys)"
  by (induction m xs ys rule: list_induct3) auto

lemma set_mask_list:
  "length m = length xs \<Longrightarrow> set (mask_list m xs) = {xs ! k |k. k < length xs \<and> m ! k}"
  unfolding mask_list_def
  by (auto simp: set_zip image_iff) force+

lemma distinct_mask_list:
  "distinct xs \<Longrightarrow> distinct (mask_list m xs)"
proof (induction m arbitrary: xs)
  case Nil then show ?case by simp
next
  case (Cons b m)
  then show ?case
  proof (cases xs)
    case Nil then show ?thesis by simp
  next
    case (Cons x xs')
    have "set (mask_list m xs') \<subseteq> set xs'"
      unfolding mask_list_def by (auto dest: set_zip_rightD)
    with Cons.prems Cons.IH[of xs'] Cons show ?thesis by auto
  qed
qed

lemma mem_mask_list_iff:
  "distinct xs \<Longrightarrow> length m = length xs \<Longrightarrow> k < length xs \<Longrightarrow>
   (xs ! k \<in> set (mask_list m xs)) = (m ! k)"
  by (auto simp: set_mask_list nth_eq_iff_index_eq)

lemma median_Some:
  assumes "xs \<noteq> []"
  shows "\<exists>m. median xs = Some m"
proof (cases "odd (length xs)")
  case True
  then have "median xs = Some (sort xs ! (length xs div 2))"
    using assms by (simp add: median_def Let_def)
  then show ?thesis by blast
next
  case False
  then have "median xs = Some ((sort xs ! (length xs div 2 - 1) + sort xs ! (length xs div 2)) / 2)"
    using assms by (simp add: median_def Let_def)
  then show ?thesis by blast
qed

lemma sort_hd_le_median:
  assumes "xs \<noteq> []" "median xs = Some m"
  shows "\<exists>k<length xs. xs ! k \<le> m"
proof -
  let ?s = "sort xs"
  have n: "0 < length xs" using assms by simp
  have len: "length ?s = length xs" by simp
  have "?s ! 0 \<in> set ?s" using n by (metis len nth_mem)
  then have "?s ! 0 \<in> set xs" by simp
  then obtain k where k: "k < length xs" "xs ! k = ?s ! 0" by (auto simp: in_set_conv_nth)
  have le: "\<And>j. j < length xs \<Longrightarrow> ?s ! 0 \<le> ?s ! j"
    by (metis len sorted_sort sorted_nth_mono le0)
  have "?s ! 0 \<le> m"
  proof (cases "odd (length xs)")
    case True
    then have "m = ?s ! (length xs div 2)" using assms n by (simp add: median_def Let_def)
    then show ?thesis using le[of "length xs div 2"] n by simp
  next
    case False
    then have m: "m = (?s ! (length xs div 2 - 1) + ?s ! (length xs div 2)) / 2"
      using assms n by (simp add: median_def Let_def)
    have "?s ! 0 \<le> ?s ! (length xs div 2 - 1)" "?s ! 0 \<le> ?s ! (length xs div 2)"
      using le[of "length xs div 2 - 1"] le[of "length xs div 2"] n by (simp_all add: less_imp_diff_less)
    then show ?thesis unfolding m by simp
  qed
  with k show ?thesis by auto
qed

lemma series_of_select_rows:
  assumes "map_of (cols d) name = Some (Numeric b)"
    and "length m = length (index d)" "length b = length (index d)"
  shows "series_of (select_rows d m) name = Inr (mask_list m (zip (index d) b))"
  using assms
  by (simp add: series_of_def get_numeric_def getitem_def and_then_def select_rows_def
      map_of_map_snd zip_mask_list)

lemma wf_frame_col_length:
  "wf_frame d \<Longrightarrow> map_of (cols d) name = Some c \<Longrightarrow> col_length c = length (index d)"
  by (auto simp: wf_frame_def list_all_iff dest!: map_of_SomeD)

lemma map_fst_mask_zip:
  "length m = length xs \<Longrightarrow> length xs = length ys \<Longrightarrow>
   map fst (mask_list m (zip xs ys)) = mask_list m xs"
  by (induction m xs ys rule: list_induct3) auto

lemma load_small_diabetes: "load_diabetes_cell small_diabetes = Inr \<lparr>df = small_df\<rparr>"
  by (simp add: load_diabetes_cell_def small_diabetes_def small_df_def DataFrame_def
      n_samples_def setitem_def col_length_def and_then_def upt_conv_Cons eval_nat_numeral)

lemma wf_small_df: "wf_frame small_df"
  by (simp add: wf_frame_def small_df_def col_length_def)

subsection \<open>The median split\<close>

text \<open>
  C10. On a well-formed frame with float columns \<open>target\<close> and \<open>bmi\<close>, the two groups
  of the two-sample test have no row in common and together hold every row, no row twice;
  a row is in the first group exactly when its target is at most the median and in the
  second exactly when it is above, so a row whose target equals the median is in the
  first; and the first group of a frame with at least one row is not empty.
\<close>

theorem median_split_partition:
  assumes wf: "wf_frame d"
    and t: "getitem d ''target'' = Inr (Numeric t)"
    and b: "getitem d ''bmi'' = Inr (Numeric b)"
  shows "\<exists>group1 group2. median_split d = Inr (group1, group2) \<and>
      set (map fst group1) \<inter> set (map fst group2) = {} \<and>
      set (map fst group1) \<union> set (map fst group2) = set (index d) \<and>
      distinct (map fst group1) \<and> distinct (map fst group2) \<and>
      (\<forall>k<length (index d).
         ((index d ! k, b ! k) \<in> set group1) = le_float (t ! k) (median t) \<and>
         ((index d ! k, b ! k) \<in> set group2) = gt_float (t ! k) (median t) \<and>
         (median t = Some (t ! k) \<longrightarrow> index d ! k \<in> set (map fst group1))) \<and>
      (index d \<noteq> [] \<longrightarrow> group1 \<noteq> [])"
proof -
  let ?ix = "index d"
  let ?m1 = "map (\<lambda>x. le_float x (median t)) t"
  let ?m2 = "map (\<lambda>x. gt_float x (median t)) t"
  let ?g1 = "mask_list ?m1 (zip ?ix b)"
  let ?g2 = "mask_list ?m2 (zip ?ix b)"
  have mt: "map_of (cols d) ''target'' = Some (Numeric t)"
    and mb: "map_of (cols d) ''bmi'' = Some (Numeric b)"
    using t b by (auto simp: getitem_def split: option.splits)
  have lt: "length t = length ?ix" and lb: "length b = length ?ix"
    using wf_frame_col_length[OF wf mt] wf_frame_col_length[OF wf mb]
    by (simp_all add: col_length_def)
  have dist: "distinct ?ix" using wf by (simp add: wf_frame_def)
  have split: "median_split d = Inr (?g1, ?g2)"
    using mt lt lb series_of_select_rows[OF mb, of ?m1] series_of_select_rows[OF mb, of ?m2]
    by (simp add: median_split_def get_numeric_def getitem_def and_then_def Let_def)
  have f1: "map fst ?g1 = mask_list ?m1 ?ix" and f2: "map fst ?g2 = mask_list ?m2 ?ix"
    using lt lb by (simp_all add: map_fst_mask_zip)
  have s1: "set (mask_list ?m1 ?ix) = {?ix ! k |k. k < length ?ix \<and> le_float (t ! k) (median t)}"
    using lt by (subst set_mask_list) auto
  have s2: "set (mask_list ?m2 ?ix) = {?ix ! k |k. k < length ?ix \<and> gt_float (t ! k) (median t)}"
    using lt by (subst set_mask_list) auto
  have excl: "\<And>x. le_float x (median t) \<noteq> gt_float x (median t) \<or> median t = None"
    by (auto simp: le_float_def gt_float_def split: option.splits)
  have none: "median t = None \<Longrightarrow> ?ix = []"
    using lt by (auto simp: median_def Let_def split: if_splits)
  have disj: "set (map fst ?g1) \<inter> set (map fst ?g2) = {}"
  proof -
    { fix j k assume "j < length ?ix" "k < length ?ix" "?ix ! j = ?ix ! k"
        "le_float (t ! j) (median t)" "gt_float (t ! k) (median t)"
      then have False using dist
        by (auto simp: nth_eq_iff_index_eq le_float_def gt_float_def split: option.splits) }
    then show ?thesis unfolding f1 f2 s1 s2 by blast
  qed
  have cover: "set (map fst ?g1) \<union> set (map fst ?g2) = set ?ix"
  proof -
    have "\<And>k. k < length ?ix \<Longrightarrow> le_float (t ! k) (median t) \<or> gt_float (t ! k) (median t)"
    proof -
      fix k assume "k < length ?ix"
      then have "?ix \<noteq> []" by auto
      then have "median t \<noteq> None" using none by blast
      then show "le_float (t ! k) (median t) \<or> gt_float (t ! k) (median t)"
        by (auto simp: le_float_def gt_float_def)
    qed
    then have each: "\<And>k. k < length ?ix \<Longrightarrow>
        ?ix ! k \<in> set (mask_list ?m1 ?ix) \<union> set (mask_list ?m2 ?ix)"
      unfolding s1 s2 by blast
    have "set ?ix \<subseteq> set (mask_list ?m1 ?ix) \<union> set (mask_list ?m2 ?ix)"
    proof
      fix x assume "x \<in> set ?ix"
      then obtain k where "k < length ?ix" "?ix ! k = x" by (auto simp: in_set_conv_nth)
      then show "x \<in> set (mask_list ?m1 ?ix) \<union> set (mask_list ?m2 ?ix)"
        using each[of k] by simp
    qed
    moreover have "set (mask_list ?m1 ?ix) \<union> set (mask_list ?m2 ?ix) \<subseteq> set ?ix"
      unfolding s1 s2 by auto
    ultimately show ?thesis unfolding f1 f2 by blast
  qed
  have d1: "distinct (map fst ?g1)" and d2: "distinct (map fst ?g2)"
    unfolding f1 f2 using dist by (simp_all add: distinct_mask_list)
  have lz: "length (zip ?ix b) = length ?ix" using lb by simp
  have dz: "distinct (zip ?ix b)" using dist lb by (simp add: distinct_zipI1)
  have mem1: "\<And>k. k < length ?ix \<Longrightarrow>
      ((?ix ! k, b ! k) \<in> set ?g1) = le_float (t ! k) (median t)"
    using mem_mask_list_iff[OF dz, of ?m1] lt lb lz by simp
  have mem2: "\<And>k. k < length ?ix \<Longrightarrow>
      ((?ix ! k, b ! k) \<in> set ?g2) = gt_float (t ! k) (median t)"
    using mem_mask_list_iff[OF dz, of ?m2] lt lb lz by simp
  have tie: "\<And>k. k < length ?ix \<Longrightarrow> median t = Some (t ! k) \<Longrightarrow> ?ix ! k \<in> set (map fst ?g1)"
  proof -
    fix k assume k: "k < length ?ix" and "median t = Some (t ! k)"
    then have "le_float (t ! k) (median t)" by (simp add: le_float_def)
    then show "?ix ! k \<in> set (map fst ?g1)" unfolding f1 s1 using k by blast
  qed
  have ne: "?ix \<noteq> [] \<Longrightarrow> ?g1 \<noteq> []"
  proof -
    assume "?ix \<noteq> []"
    then have tn: "t \<noteq> []" using lt by auto
    then obtain m where m: "median t = Some m" using median_Some by blast
    from sort_hd_le_median[OF tn m] obtain k where k: "k < length t" "t ! k \<le> m" by blast
    then have "le_float (t ! k) (median t)" using m by (simp add: le_float_def)
    then have "(?ix ! k, b ! k) \<in> set ?g1" using mem1[of k] k lt by simp
    then show "?g1 \<noteq> []" by auto
  qed
  show ?thesis using split disj cover d1 d2 mem1 mem2 tie ne by blast
qed

theorem median_split_partition_witness:
  "wf_frame small_df \<and>
   getitem small_df ''target'' = Inr (Numeric [151, 75, 141, 206]) \<and>
   getitem small_df ''bmi'' = Inr (Numeric [0.06, -0.05, 0.04, -0.01]) \<and>
   (\<exists>group1 group2. median_split small_df = Inr (group1, group2) \<and>
      set (map fst group1) \<inter> set (map fst group2) = {} \<and>
      set (map fst group1) \<union> set (map fst group2) = {0, 1, 2, 3} \<and>
      group1 \<noteq> [])"
proof -
  have t: "getitem small_df ''target'' = Inr (Numeric [151, 75, 141, 206])"
    and b: "getitem small_df ''bmi'' = Inr (Numeric [0.06, -0.05, 0.04, -0.01])"
    by (simp_all add: getitem_def small_df_def)
  have ix: "index small_df = [0, 1, 2, 3]" by (simp add: small_df_def)
  from median_split_partition[OF wf_small_df t b] ix
  have "\<exists>group1 group2. median_split small_df = Inr (group1, group2) \<and>
      set (map fst group1) \<inter> set (map fst group2) = {} \<and>
      set (map fst group1) \<union> set (map fst group2) = {0, 1, 2, 3} \<and>
      group1 \<noteq> []"
    by auto
  with wf_small_df t b show ?thesis by blast
qed

subsection \<open>The split\<close>

lemma col_cells_take_column:
  "\<forall>p\<in>set ps. p < col_length c \<Longrightarrow> col_cells (take_column c ps) = take_list (col_cells c) ps"
  by (cases c) (auto simp: take_list_def col_length_def)

lemma rows_take_rows:
  assumes cl: "list_all (\<lambda>nc. col_length (snd nc) = length (index d)) (cols d)"
    and ps: "\<forall>p\<in>set ps. p < length (index d)"
  shows "rows (take_rows d ps) = take_list (rows d) ps"
proof (rule nth_equalityI)
  show "length (rows (take_rows d ps)) = length (take_list (rows d) ps)"
    by (simp add: rows_def take_rows_def take_list_def)
next
  fix k assume "k < length (rows (take_rows d ps))"
  then have k: "k < length ps" by (simp add: rows_def take_rows_def take_list_def)
  then have pk: "ps ! k < length (index d)" using ps by simp
  have cell: "\<And>nc. nc \<in> set (cols d) \<Longrightarrow>
      col_cells (take_column (snd nc) ps) ! k = col_cells (snd nc) ! (ps ! k)"
  proof -
    fix nc assume "nc \<in> set (cols d)"
    then have "col_length (snd nc) = length (index d)" using cl by (simp add: list_all_iff)
    then have "col_cells (take_column (snd nc) ps) = take_list (col_cells (snd nc)) ps"
      using ps by (intro col_cells_take_column) simp
    then show "col_cells (take_column (snd nc) ps) ! k = col_cells (snd nc) ! (ps ! k)"
      using k by (simp add: take_list_def)
  qed
  show "rows (take_rows d ps) ! k = take_list (rows d) ps ! k"
    using k pk cell by (simp add: rows_def take_rows_def take_list_def comp_def)
qed

lemma shuffle_facts:
  assumes "mset p = mset [0..<n]"
  shows "length p = n" "set p = {0..<n}" "distinct p"
proof -
  show "length p = n" using assms by (metis length_upt mset_eq_length minus_nat.diff_0)
  show "set p = {0..<n}" using assms by (metis mset_eq_setD set_upt)
  show "distinct p" using assms by (metis distinct_upt mset_eq_imp_distinct_iff)
qed

lemma take_list_all:
  assumes "mset p = mset [0..<length xs]"
  shows "mset (take_list xs p) = mset xs"
proof -
  have "mset (take_list xs p) = image_mset (\<lambda>k. xs ! k) (mset p)"
    by (simp add: take_list_def)
  also have "\<dots> = mset (map (\<lambda>k. xs ! k) [0..<length xs])"
    unfolding assms by simp
  also have "\<dots> = mset xs" by (simp add: map_nth)
  finally show ?thesis .
qed

lemma take_list_append: "take_list xs (ps @ qs) = take_list xs ps @ take_list xs qs"
  by (simp add: take_list_def)

lemma train_test_cover:
  assumes p: "mset p = mset [0..<length xs]"
  shows "mset (take_list xs (take (length xs - k) (drop k p))) + mset (take_list xs (take k p))
         = mset xs"
proof -
  have len: "length p = length xs" using shuffle_facts(1)[OF p] .
  have tl: "take (length xs - k) (drop k p) = drop k p" using len by simp
  have "take_list xs p = take_list xs (take k p) @ take_list xs (drop k p)"
    by (metis append_take_drop_id take_list_append)
  then have "mset (take_list xs (drop k p)) + mset (take_list xs (take k p)) = mset (take_list xs p)"
    by simp
  then show ?thesis unfolding tl using take_list_all[OF p] by simp
qed

lemma train_test_distinct:
  assumes p: "mset p = mset [0..<length xs]" and d: "distinct xs"
  shows "distinct (take_list xs (take (length xs - k) (drop k p)) @ take_list xs (take k p))"
proof -
  have len: "length p = length xs" using shuffle_facts(1)[OF p] .
  have tl: "take (length xs - k) (drop k p) = drop k p" using len by simp
  have "mset (take_list xs (drop k p) @ take_list xs (take k p)) = mset xs"
    using train_test_cover[OF p, of k] tl by simp
  then show ?thesis unfolding tl using d by (metis mset_eq_imp_distinct_iff)
qed

lemma map_fst_take_list:
  "\<forall>p\<in>set ps. p < length ys \<Longrightarrow> map fst (take_list ys ps) = take_list (map fst ys) ps"
  by (simp add: take_list_def)

lemma ceiling_fifth: "\<lceil>(1::real) / 5\<rceil> = 1"
  by (simp add: ceiling_eq_iff)

lemma train_test_split_seeded:
  "train_test_split np g X y test_size (Some seed) =
     (let n = length (index X); n_test = nat \<lceil>test_size * real n\<rceil>;
          p = fst (permutation np (RandomState np seed) n)
      in if length y \<noteq> n \<or> \<not> (0 < test_size \<and> test_size < 1) \<or> n - n_test = 0
         then (Inl ValueError, g)
         else (Inr (take_rows X (take (n - n_test) (drop n_test p)), take_rows X (take n_test p),
                    take_list y (take (n - n_test) (drop n_test p)), take_list y (take n_test p)),
               g))"
  by (simp add: train_test_split_def Let_def)

lemma train_test_split_parts:
  assumes wf: "wf_frame X"
    and aligned: "map fst y = index X"
    and shuffle: "mset p = mset [0..<length (index X)]"
    and k: "k < length (index X)"
  shows "mset (rows (take_rows X (take (length (index X) - k) (drop k p)))) +
           mset (rows (take_rows X (take k p))) = mset (rows X) \<and>
         distinct (index (take_rows X (take (length (index X) - k) (drop k p))) @
                   index (take_rows X (take k p))) \<and>
         set (index (take_rows X (take (length (index X) - k) (drop k p)))) \<union>
           set (index (take_rows X (take k p))) = set (index X) \<and>
         index (take_rows X (take (length (index X) - k) (drop k p))) \<noteq> [] \<and>
         length (index (take_rows X (take k p))) = k \<and>
         mset (take_list y (take (length (index X) - k) (drop k p))) +
           mset (take_list y (take k p)) = mset y \<and>
         map fst (take_list y (take (length (index X) - k) (drop k p))) =
           index (take_rows X (take (length (index X) - k) (drop k p))) \<and>
         map fst (take_list y (take k p)) = index (take_rows X (take k p))"
proof -
  let ?n = "length (index X)"
  let ?tr = "take (?n - k) (drop k p)"
  let ?te = "take k p"
  have ly: "length y = ?n" using aligned by (metis length_map)
  have sp: "set p = {0..<?n}" and lp: "length p = ?n" using shuffle_facts[OF shuffle] by auto
  have trb: "\<forall>q\<in>set ?tr. q < ?n" using sp by (auto dest!: in_set_takeD in_set_dropD)
  have teb: "\<forall>q\<in>set ?te. q < ?n" using sp by (auto dest!: in_set_takeD)
  have cl: "list_all (\<lambda>nc. col_length (snd nc) = ?n) (cols X)" using wf by (simp add: wf_frame_def)
  have lr: "length (rows X) = ?n" by (simp add: rows_def)
  have rows: "mset (rows (take_rows X ?tr)) + mset (rows (take_rows X ?te)) = mset (rows X)"
    unfolding rows_take_rows[OF cl trb] rows_take_rows[OF cl teb]
    using train_test_cover[of p "rows X" k] shuffle lr by simp
  have ix: "index (take_rows X ?tr) = take_list (index X) ?tr"
    "index (take_rows X ?te) = take_list (index X) ?te"
    by (simp_all add: take_rows_def)
  have dist: "distinct (index (take_rows X ?tr) @ index (take_rows X ?te))"
    unfolding ix using train_test_distinct[of p "index X" k] shuffle wf
    by (simp add: wf_frame_def)
  have cover: "mset (index (take_rows X ?tr)) + mset (index (take_rows X ?te)) = mset (index X)"
    unfolding ix using train_test_cover[of p "index X" k] shuffle by simp
  have un: "set (index (take_rows X ?tr)) \<union> set (index (take_rows X ?te)) = set (index X)"
    using cover by (metis set_mset_mset set_mset_union)
  have ne: "index (take_rows X ?tr) \<noteq> []"
    unfolding ix using k lp by (simp add: take_list_def)
  have lte: "length (index (take_rows X ?te)) = k"
    unfolding ix using k lp by (simp add: take_list_def)
  have ys: "mset (take_list y ?tr) + mset (take_list y ?te) = mset y"
    using train_test_cover[of p y k] shuffle ly by simp
  have al: "map fst (take_list y ?tr) = index (take_rows X ?tr)"
    "map fst (take_list y ?te) = index (take_rows X ?te)"
    unfolding ix
    using map_fst_take_list[of ?tr y] map_fst_take_list[of ?te y] trb teb ly aligned
    by simp_all
  show ?thesis using rows dist un ne lte ys al by blast
qed

lemma split_small_X:
  "train_test_split small_generator g small_X small_y 0.2 (Some 42) =
     (Inr (small_X_train, small_X_test, small_y_train, small_y_test), g)"
  by (simp add: train_test_split_def small_X_def small_y_def small_generator_def take_rows_def
      take_list_def Let_def small_X_train_def small_X_test_def small_y_train_def small_y_test_def)



lemma small_generator_perm:
  "mset (fst (permutation small_generator (RandomState small_generator 42)
      (length (index small_X)))) = mset [0..<length (index small_X)]"
  by (simp add: small_generator_def small_X_def upt_conv_Cons eval_nat_numeral)

lemma wf_small_X: "wf_frame small_X"
  by (simp add: wf_frame_def small_X_def col_length_def)

text \<open>
  C1, as stated, does not hold for every dataset and every ratio: on a dataset of one
  row the notebook's split, with its ratio 0.2, returns no subsets but raises, because the
  training subset would be empty; so does a split of ten rows with the ratio 0.91.
\<close>

theorem one_row_split_raises:
  "split_cell small_generator 0 \<lparr>df = one_row_df\<rparr> = Inl ValueError \<and>
   fst (train_test_split small_generator 0 small_X small_y 0.91 (Some 42)) = Inl ValueError"
  by (simp add: split_cell_def one_row_df_def drop_column_def label_series_def getitem_def
      and_then_def train_test_split_def small_X_def small_y_def Let_def ceiling_fifth
      ceiling_eq_iff)

text \<open>
  C1, amended. Let the features frame be well formed, the labels carry the same row
  labels, the ratio lie strictly between 0 and 1, and the draw of the generator seeded
  with the given seed be a permutation of the positions. If the ratio leaves the training
  set at least one row (\<open>ceil(r * n) < n\<close>), the split returns: it returns the same four
  parts whatever the state of the global generator, and leaves that state as it is, so
  that two calls return the same parts; the rows of the training and the test frame
  together are exactly the rows of the input, each once; no row label is in both; the
  training frame is not empty; and the labels are split along with the rows. Otherwise the split raises ValueError, again whatever the
  global generator. The notebook's cell is this split of the frame without its target
  column, with the ratio 0.2 and the seed 42.
\<close>

theorem train_test_split_partition:
  assumes wf: "wf_frame X"
    and aligned: "map fst y = index X"
    and ratio: "0 < test_size" "test_size < 1"
    and shuffle: "mset (fst (permutation np (RandomState np seed) (length (index X)))) =
                  mset [0..<length (index X)]"
  shows "(nat \<lceil>test_size * real (length (index X))\<rceil> < length (index X) \<longrightarrow>
            (\<exists>Xtr Xte ytr yte.
               (\<forall>g. train_test_split np g X y test_size (Some seed) =
                      (Inr (Xtr, Xte, ytr, yte), g)) \<and>
               mset (rows Xtr) + mset (rows Xte) = mset (rows X) \<and>
               distinct (index Xtr @ index Xte) \<and>
               set (index Xtr) \<inter> set (index Xte) = {} \<and>
               set (index Xtr) \<union> set (index Xte) = set (index X) \<and>
               index Xtr \<noteq> [] \<and>
               mset ytr + mset yte = mset y \<and>
               map fst ytr = index Xtr \<and> map fst yte = index Xte)) \<and>
         (\<not> nat \<lceil>test_size * real (length (index X))\<rceil> < length (index X) \<longrightarrow>
            (\<forall>g. train_test_split np g X y test_size (Some seed) = (Inl ValueError, g))) \<and>
         (\<forall>s g. drop_column (df s) ''target'' = Inr X \<and> label_series (df s) ''target'' = Inr y \<longrightarrow>
            split_cell np g s = fst (train_test_split np g X y 0.2 (Some 42)))"
proof -
  let ?n = "length (index X)"
  let ?k = "nat \<lceil>test_size * real ?n\<rceil>"
  let ?p = "fst (permutation np (RandomState np seed) ?n)"
  let ?Xtr = "take_rows X (take (?n - ?k) (drop ?k ?p))"
  let ?Xte = "take_rows X (take ?k ?p)"
  let ?ytr = "take_list y (take (?n - ?k) (drop ?k ?p))"
  let ?yte = "take_list y (take ?k ?p)"
  have ly: "length y = ?n" using aligned by (metis length_map)
  have returns: "?k < ?n \<longrightarrow>
            (\<exists>Xtr Xte ytr yte.
               (\<forall>g. train_test_split np g X y test_size (Some seed) =
                      (Inr (Xtr, Xte, ytr, yte), g)) \<and>
               mset (rows Xtr) + mset (rows Xte) = mset (rows X) \<and>
               distinct (index Xtr @ index Xte) \<and>
               set (index Xtr) \<inter> set (index Xte) = {} \<and>
               set (index Xtr) \<union> set (index Xte) = set (index X) \<and>
               index Xtr \<noteq> [] \<and>
               mset ytr + mset yte = mset y \<and>
               map fst ytr = index Xtr \<and> map fst yte = index Xte)"
  proof
    assume k: "?k < ?n"
    have call: "\<forall>g. train_test_split np g X y test_size (Some seed) =
        (Inr (?Xtr, ?Xte, ?ytr, ?yte), g)"
      using ly ratio k by (simp add: train_test_split_seeded Let_def)
    note parts = train_test_split_parts[OF wf aligned shuffle k]
    have dist: "distinct (index ?Xtr @ index ?Xte)" using parts by blast
    then have disj: "set (index ?Xtr) \<inter> set (index ?Xte) = {}" by simp
    show "\<exists>Xtr Xte ytr yte.
               (\<forall>g. train_test_split np g X y test_size (Some seed) =
                      (Inr (Xtr, Xte, ytr, yte), g)) \<and>
               mset (rows Xtr) + mset (rows Xte) = mset (rows X) \<and>
               distinct (index Xtr @ index Xte) \<and>
               set (index Xtr) \<inter> set (index Xte) = {} \<and>
               set (index Xtr) \<union> set (index Xte) = set (index X) \<and>
               index Xtr \<noteq> [] \<and>
               mset ytr + mset yte = mset y \<and>
               map fst ytr = index Xtr \<and> map fst yte = index Xte"
      using call parts disj by blast
  qed
  have raises: "\<not> ?k < ?n \<longrightarrow>
      (\<forall>g. train_test_split np g X y test_size (Some seed) = (Inl ValueError, g))"
    by (simp add: train_test_split_seeded Let_def)
  have cell: "\<forall>s g. drop_column (df s) ''target'' = Inr X \<and>
        label_series (df s) ''target'' = Inr y \<longrightarrow>
      split_cell np g s = fst (train_test_split np g X y 0.2 (Some 42))"
    by (simp add: split_cell_def and_then_def)
  show ?thesis
  proof (intro conjI)
    show "?k < ?n \<longrightarrow>
            (\<exists>Xtr Xte ytr yte.
               (\<forall>g. train_test_split np g X y test_size (Some seed) =
                      (Inr (Xtr, Xte, ytr, yte), g)) \<and>
               mset (rows Xtr) + mset (rows Xte) = mset (rows X) \<and>
               distinct (index Xtr @ index Xte) \<and>
               set (index Xtr) \<inter> set (index Xte) = {} \<and>
               set (index Xtr) \<union> set (index Xte) = set (index X) \<and>
               index Xtr \<noteq> [] \<and>
               mset ytr + mset yte = mset y \<and>
               map fst ytr = index Xtr \<and> map fst yte = index Xte)"
      using returns .
    show "\<not> ?k < ?n \<longrightarrow>
      (\<forall>g. train_test_split np g X y test_size (Some seed) = (Inl ValueError, g))"
      using raises .
    show "\<forall>s g. drop_column (df s) ''target'' = Inr X \<and>
        label_series (df s) ''target'' = Inr y \<longrightarrow>
      split_cell np g s = fst (train_test_split np g X y 0.2 (Some 42))"
      using cell .
  qed
qed

theorem train_test_split_partition_witness:
  "wf_frame small_X \<and> map fst small_y = index small_X \<and>
   mset (fst (permutation small_generator (RandomState small_generator 42)
      (length (index small_X)))) = mset [0..<length (index small_X)] \<and>
   nat \<lceil>0.2 * real (length (index small_X))\<rceil> < length (index small_X) \<and>
   train_test_split small_generator 0 small_X small_y 0.2 (Some 42) =
     (Inr (small_X_train, small_X_test, small_y_train, small_y_test), 0) \<and>
   train_test_split small_generator 7 small_X small_y 0.2 (Some 42) =
     (Inr (small_X_train, small_X_test, small_y_train, small_y_test), 7) \<and>
   mset (rows small_X_train) + mset (rows small_X_test) = mset (rows small_X) \<and>
   set (index small_X_train) \<inter> set (index small_X_test) = {} \<and>
   set (index small_X_train) \<union> set (index small_X_test) = set (index small_X) \<and>
   index small_X_train = [5, 0, 7, 2, 9, 4, 3, 6] \<and> index small_X_test = [8, 1] \<and>
   mset small_y_train + mset small_y_test = mset small_y \<and>
   drop_column small_wine_df ''target'' = Inr small_X \<and>
   label_series small_wine_df ''target'' = Inr small_y \<and>
   split_cell small_generator 0 \<lparr>df = small_wine_df\<rparr> =
     Inr (small_X_train, small_X_test, small_y_train, small_y_test) \<and>
   \<not> nat \<lceil>0.91 * real (length (index small_X))\<rceil> < length (index small_X) \<and>
   train_test_split small_generator 0 small_X small_y 0.91 (Some 42) = (Inl ValueError, 0)"
proof -
  have al: "map fst small_y = index small_X" by (simp add: small_y_def small_X_def)
  have k: "nat \<lceil>0.2 * real (length (index small_X))\<rceil> < length (index small_X)"
    by (simp add: small_X_def)
  have k': "\<not> nat \<lceil>0.91 * real (length (index small_X))\<rceil> < length (index small_X)"
    by (simp add: small_X_def ceiling_eq_iff)
  have r: "(0::real) < 0.2" "(0.2::real) < 1" by simp_all
  have r': "(0::real) < 0.91" "(0.91::real) < 1" by simp_all
  have dc: "drop_column small_wine_df ''target'' = Inr small_X"
    by (simp add: drop_column_def small_wine_df_def small_X_def)
  have ls: "label_series small_wine_df ''target'' = Inr small_y"
    by (simp add: label_series_def getitem_def and_then_def small_wine_df_def small_y_def)
  note inst = train_test_split_partition[where np = small_generator and seed = 42
      and X = small_X and y = small_y and test_size = "0.2",
      OF wf_small_X al r small_generator_perm]
  note returns = inst[THEN conjunct1, THEN mp, OF k]
  from returns obtain Xtr Xte ytr yte where
    call: "\<forall>g. train_test_split small_generator g small_X small_y 0.2 (Some 42) =
                (Inr (Xtr, Xte, ytr, yte), g)"
    and rows: "mset (rows Xtr) + mset (rows Xte) = mset (rows small_X)"
    and disj: "set (index Xtr) \<inter> set (index Xte) = {}"
    and cover: "set (index Xtr) \<union> set (index Xte) = set (index small_X)"
    and ys: "mset ytr + mset yte = mset small_y"
    by blast
  from call[rule_format, of 0] split_small_X[of 0]
  have eq: "Xtr = small_X_train" "Xte = small_X_test" "ytr = small_y_train" "yte = small_y_test"
    by simp_all
  note call0 = call[rule_format, of 0, unfolded eq]
  note call7 = call[rule_format, of 7, unfolded eq]
  have cellc: "split_cell small_generator 0 \<lparr>df = small_wine_df\<rparr> =
      fst (train_test_split small_generator 0 small_X small_y 0.2 (Some 42))"
    using inst[THEN conjunct2, THEN conjunct2, rule_format,
        of "\<lparr>df = small_wine_df\<rparr>" 0] dc ls by simp
  have cell: "split_cell small_generator 0 \<lparr>df = small_wine_df\<rparr> =
      Inr (small_X_train, small_X_test, small_y_train, small_y_test)"
    unfolding cellc call0 by simp
  note inst' = train_test_split_partition[where np = small_generator and seed = 42
      and X = small_X and y = small_y and test_size = "0.91",
      OF wf_small_X al r' small_generator_perm]
  have raises: "train_test_split small_generator 0 small_X small_y 0.91 (Some 42) =
      (Inl ValueError, 0)"
    using inst'[THEN conjunct2, THEN conjunct1, THEN mp, OF k'] by (rule spec)
  have ix: "index small_X_train = [5, 0, 7, 2, 9, 4, 3, 6]" "index small_X_test = [8, 1]"
    by (simp_all add: small_X_train_def small_X_test_def)
  show ?thesis
    using wf_small_X al small_generator_perm k call0 call7 rows[unfolded eq] disj[unfolded eq]
      cover[unfolded eq] ix ys[unfolded eq] dc ls cell k' raises
    by blast
qed

subsection \<open>Standardization\<close>









lemma variance_zero_constant:
  assumes "c \<noteq> []" "variance c = 0" "x \<in> set c"
  shows "x = mean c"
proof -
  have n: "real (length c) \<noteq> 0" using assms by simp
  have "sum_list (map (\<lambda>x. (x - mean c)\<^sup>2) c) = 0"
    using assms(2) n by (simp add: variance_def mean_def)
  then have "\<forall>y\<in>set (map (\<lambda>x. (x - mean c)\<^sup>2) c). y = 0"
    by (subst (asm) sum_list_nonneg_eq_0_iff) auto
  then have "(x - mean c)\<^sup>2 = 0" using assms(3) by auto
  then show ?thesis by simp
qed

lemma zero_variance_is_constant: "is_constant_feature 0 u n"
  by (simp add: is_constant_feature_def)

lemma feature_scale_constant:
  "is_constant_feature (variance c) (mean c) n \<Longrightarrow> feature_scale n c = 1"
  by (simp add: feature_scale_def handle_zeros_in_scale_def)



lemma check_array_ok: "a \<noteq> [] \<Longrightarrow> n_samples a \<noteq> 0 \<Longrightarrow> check_array a = Inr a"
  by (simp add: check_array_def)

lemma transform_fitted:
  "map (\<lambda>(c, u, s). map (\<lambda>x. (x - u) / s) c) (zip a (zip (map mean a) (map (feature_scale n) a)))
     = map (\<lambda>c. map (\<lambda>x. (x - mean c) / feature_scale n c) c) a"
  by (induction a) auto

lemma fit_transform_value:
  assumes "a \<noteq> []" "n_samples a \<noteq> 0"
  shows "fit_transform a =
     Inr (\<lparr>scaler_mean = map mean a, scaler_var = map variance a,
            scaler_scale = map (feature_scale (n_samples a)) a\<rparr>,
          map (\<lambda>c. map (\<lambda>x. (x - mean c) / feature_scale (n_samples a) c) c) a)"
  using assms
  by (simp add: fit_transform_def scaler_fit_def transform_def check_array_ok and_then_def
      transform_fitted)

lemma fit_transform_refused:
  "a = [] \<or> n_samples a = 0 \<Longrightarrow> fit_transform a = Inl ValueError"
  by (auto simp: fit_transform_def scaler_fit_def check_array_def and_then_def)



lemma variance_small_alcohol: "variance [14, 12, 14, 12, 14, 12, 14, 12] = 1"
  by (simp add: variance_def mean_def power2_eq_square)

lemma variance_small_ash: "variance [6, 2, 6, 2, 6, 2, 6, 2] = 4"
  by (simp add: variance_def mean_def power2_eq_square)

lemma mean_small_alcohol: "mean [14, 12, 14, 12, 14, 12, 14, 12] = 13"
  by (simp add: mean_def)

lemma mean_small_ash: "mean [6, 2, 6, 2, 6, 2, 6, 2] = 4"
  by (simp add: mean_def)

lemma small_not_constant:
  "\<not> is_constant_feature 1 13 8" "\<not> is_constant_feature 4 4 8"
  by (simp_all add: is_constant_feature_def eps_def power2_eq_square)

lemma fit_transform_small:
  "fit_transform [[14, 12, 14, 12, 14, 12, 14, 12], [6, 2, 6, 2, 6, 2, 6, 2]] =
     Inr (\<lparr>scaler_mean = [13, 4], scaler_var = [1, 4], scaler_scale = [1, 2]\<rparr>,
          [[1, -1, 1, -1, 1, -1, 1, -1], [1, -1, 1, -1, 1, -1, 1, -1]])"
proof -
  have ns: "n_samples [[14, 12, 14, 12, 14, 12, 14, 12], [6, 2, 6, 2, 6, 2, 6, 2 :: real]] = 8"
    by (simp add: n_samples_def)
  show ?thesis
    by (subst fit_transform_value)
      (simp_all add: ns feature_scale_def handle_zeros_in_scale_def std_def
        variance_small_alcohol variance_small_ash mean_small_alcohol mean_small_ash
        small_not_constant)
qed

lemma scale_small_wine:
  "scale_cell small_X_train small_X_test =
     Inr (\<lparr>scaler_mean = [13, 4], scaler_var = [1, 4], scaler_scale = [1, 2]\<rparr>,
          [[1, -1, 1, -1, 1, -1, 1, -1], [1, -1, 1, -1, 1, -1, 1, -1]], [[1, -1], [1, -1]])"
  by (simp add: scale_cell_def small_X_train_def small_X_test_def and_then_def
      fit_transform_small transform_def check_array_def n_samples_def)




text \<open>
  C6, as stated, does not hold: a feature with zero variance does not make the
  scaling cell raise. Its scale is set to 1 and its values become 0.
\<close>

theorem constant_feature_is_scaled:
  "variance [5, 5, 5, 5] = 0 \<and>
   scale_cell
     \<lparr>index = [2, 0, 3, 1],
        cols = [(''ash'', Numeric [5, 5, 5, 5]), (''alcohol'', Numeric [1, 1, 3, 3])]\<rparr>
     \<lparr>index = [4], cols = [(''ash'', Numeric [5]), (''alcohol'', Numeric [2])]\<rparr> =
   Inr (\<lparr>scaler_mean = [5, 2], scaler_var = [0, 1], scaler_scale = [1, 1]\<rparr>,
        [[0, 0, 0, 0], [-1, -1, 1, 1]], [[0], [0]])"
  by (simp add: scale_cell_def and_then_def fit_transform_def scaler_fit_def transform_def
      check_array_def n_samples_def mean_def variance_def std_def feature_scale_def
      handle_zeros_in_scale_def is_constant_feature_def eps_def power2_eq_square)

text \<open>
  C6, amended. \<^verbatim>\<open>fit_transform\<close> returns on every array with at least one feature
  and one sample, whatever the variances; a feature whose variance is zero gets the scale
  1 and is transformed to zeros. It is refused only for an array with no feature or no
  sample.
\<close>

theorem fit_transform_never_degenerate:
  "(a \<noteq> [] \<and> n_samples a \<noteq> 0 \<longrightarrow>
      (\<exists>sc z. fit_transform a = Inr (sc, z) \<and> length z = length a \<and>
         (\<forall>j<length a. variance (a ! j) = 0 \<longrightarrow>
            scaler_scale sc ! j = 1 \<and> z ! j = map (\<lambda>x. 0) (a ! j)))) \<and>
   (a = [] \<or> n_samples a = 0 \<longrightarrow> fit_transform a = Inl ValueError)"
proof -
  let ?n = "n_samples a"
  let ?sc = "\<lparr>scaler_mean = map mean a, scaler_var = map variance a,
      scaler_scale = map (feature_scale ?n) a\<rparr>"
  let ?z = "map (\<lambda>c. map (\<lambda>x. (x - mean c) / feature_scale ?n c) c) a"
  have const: "\<forall>j<length a. variance (a ! j) = 0 \<longrightarrow>
            scaler_scale ?sc ! j = 1 \<and> ?z ! j = map (\<lambda>x. 0) (a ! j)"
  proof (intro allI impI)
    fix j assume j: "j < length a" and v: "variance (a ! j) = 0"
    have s: "feature_scale ?n (a ! j) = 1"
      using v zero_variance_is_constant[of "mean (a ! j)" ?n]
      by (simp add: feature_scale_constant)
    have "map (\<lambda>x. (x - mean (a ! j)) / 1) (a ! j) = map (\<lambda>x. 0) (a ! j)"
    proof (cases "a ! j = []")
      case True
      then show ?thesis by simp
    next
      case False
      then show ?thesis using variance_zero_constant[OF False v] by simp
    qed
    then show "scaler_scale ?sc ! j = 1 \<and> ?z ! j = map (\<lambda>x. 0) (a ! j)"
      using j s by simp
  qed
  have ok: "a \<noteq> [] \<and> n_samples a \<noteq> 0 \<longrightarrow>
      (\<exists>sc z. fit_transform a = Inr (sc, z) \<and> length z = length a \<and>
         (\<forall>j<length a. variance (a ! j) = 0 \<longrightarrow>
            scaler_scale sc ! j = 1 \<and> z ! j = map (\<lambda>x. 0) (a ! j)))"
  proof
    assume "a \<noteq> [] \<and> n_samples a \<noteq> 0"
    then have ft: "fit_transform a = Inr (?sc, ?z)" using fit_transform_value by blast
    have len: "length ?z = length a" by simp
    show "\<exists>sc z. fit_transform a = Inr (sc, z) \<and> length z = length a \<and>
         (\<forall>j<length a. variance (a ! j) = 0 \<longrightarrow>
            scaler_scale sc ! j = 1 \<and> z ! j = map (\<lambda>x. 0) (a ! j))"
      using ft len const by blast
  qed
  show ?thesis using ok fit_transform_refused[of a] by blast
qed

theorem fit_transform_never_degenerate_witness:
  "[[5, 5, 5, 5], [1, 1, 3, 3]] \<noteq> ([] :: real list list) \<and>
   n_samples [[5, 5, 5, 5], [1, 1, 3, 3]] = 4 \<and>
   variance [5, 5, 5, 5] = 0 \<and>
   (\<exists>sc z. fit_transform [[5, 5, 5, 5], [1, 1, 3, 3]] = Inr (sc, z) \<and>
      scaler_scale sc ! 0 = 1 \<and> z ! 0 = [0, 0, 0, 0]) \<and>
   fit_transform [] = Inl ValueError"
proof -
  let ?a = "[[5, 5, 5, 5], [1, 1, 3, 3]] :: real list list"
  have ns: "n_samples ?a = 4" by (simp add: n_samples_def)
  have v: "variance [5, 5, 5, 5] = 0" by (simp add: variance_def mean_def)
  have "\<exists>sc z. fit_transform ?a = Inr (sc, z) \<and>
      scaler_scale sc ! 0 = 1 \<and> z ! 0 = [0, 0, 0, 0]"
    using fit_transform_never_degenerate[of ?a] ns v by auto
  moreover have "fit_transform [] = Inl ValueError"
    using fit_transform_never_degenerate[of "[]"] by simp
  ultimately show ?thesis using ns v by simp
qed

subsection \<open>Splitting and scaling together\<close>


lemma preprocess_fresh:
  "preprocess np g s0 = Inr s \<Longrightarrow>
   accuracy_log_reg s = None \<and> accuracy_dtree s = None \<and> accuracy_rf s = None \<and>
   accuracy_svm s = None \<and> accuracy_knn s = None \<and> model_comparison s = None"
  by (auto simp: preprocess_def and_then_def split: sum.splits prod.splits)

lemma load_small_wine: "load_wine_cell small_wine = Inr \<lparr>df = small_wine_df\<rparr>"
  by (simp add: load_wine_cell_def small_wine_def small_wine_df_def DataFrame_def
      n_samples_def setitem_def col_length_def and_then_def upt_conv_Cons eval_nat_numeral)


lemma split_one_class:
  "split_cell small_generator g \<lparr>df = one_class_df\<rparr> =
     Inr (small_X_train, small_X_test,
          [(5, 0), (0, 0), (7, 0), (2, 0), (9, 0), (4, 0), (3, 0), (6, 0)], [(8, 0), (1, 0)])"
  by (simp add: split_cell_def one_class_df_def drop_column_def label_series_def getitem_def
      and_then_def train_test_split_def small_generator_def take_rows_def take_list_def Let_def
      small_X_train_def small_X_test_def)

lemma preprocess_one_class:
  "preprocess small_generator g \<lparr>df = one_class_df\<rparr> = Inr one_class_nb"
  unfolding preprocess_def split_one_class and_then_def sum.case prod.case scale_small_wine
  by (simp add: one_class_nb_def)

lemma preprocess_fresh_vars:
  "preprocess np g s0 = Inr s \<Longrightarrow> \<forall>v\<in>set accuracy_vars. snd v s = None"
  using preprocess_fresh[of np g s0 s] by (simp add: accuracy_vars_def)

lemma split_cell_test_rows:
  assumes split: "split_cell np g s0 = Inr (Xtr, Xte, ytr, yte)"
    and draw: "\<forall>n. length (fst (permutation np (RandomState np 42) n)) = n"
  shows "yte \<noteq> []"
proof -
  from split obtain X y where
    tts: "fst (train_test_split np g X y 0.2 (Some 42)) = Inr (Xtr, Xte, ytr, yte)"
    by (auto simp: split_cell_def and_then_def split: sum.splits)
  let ?n = "length (index X)"
  let ?k = "nat \<lceil>0.2 * real ?n\<rceil>"
  let ?p = "fst (permutation np (RandomState np 42) ?n)"
  from tts have ok: "?n - ?k \<noteq> 0" and yte: "yte = take_list y (take ?k ?p)"
    by (auto simp: train_test_split_seeded Let_def split: if_splits)
  have n: "0 < ?n"
  proof (rule ccontr)
    assume "\<not> 0 < ?n"
    then have "?n - ?k = 0" by simp
    then show False using ok by simp
  qed
  then have "0 < 0.2 * real ?n" by simp
  then have "0 < \<lceil>0.2 * real ?n\<rceil>" by (simp add: less_ceiling_iff)
  then have k: "0 < ?k" by simp
  have "length yte = min ?k ?n" unfolding yte using draw by (simp add: take_list_def)
  then show ?thesis using k n by auto
qed

lemma preprocess_test_rows:
  assumes "preprocess np g s0 = Inr s"
    and "\<forall>n. length (fst (permutation np (RandomState np 42) n)) = n"
  shows "y_test s \<noteq> []"
  using assms split_cell_test_rows[of np g s0]
  by (auto simp: preprocess_def and_then_def split: sum.splits prod.splits)

subsection \<open>Accuracy and the classification report\<close>

lemma length_filter_mono:
  "(\<And>x. x \<in> set xs \<Longrightarrow> P x \<Longrightarrow> Q x) \<Longrightarrow> length (filter P xs) \<le> length (filter Q xs)"
  by (induction xs) auto

lemma length_filter_zip_snd:
  "length xs = length ys \<Longrightarrow>
   length (filter (\<lambda>(t, p). Q p) (zip xs ys)) = length (filter Q ys)"
  by (induction xs ys rule: list_induct2) auto

lemma length_filter_zip_fst:
  "length xs = length ys \<Longrightarrow>
   length (filter (\<lambda>(t, p). Q t) (zip xs ys)) = length (filter Q xs)"
  by (induction xs ys rule: list_induct2) auto

lemma true_positives_le_predicted:
  "length y_true = length y_pred \<Longrightarrow> true_positives y_true y_pred c \<le> support y_pred c"
proof -
  assume l: "length y_true = length y_pred"
  have "true_positives y_true y_pred c \<le> length (filter (\<lambda>(t, p). p = c) (zip y_true y_pred))"
    unfolding true_positives_def by (rule length_filter_mono) auto
  also have "\<dots> = support y_pred c"
    unfolding support_def using length_filter_zip_snd[OF l, of "\<lambda>p. p = c"] by simp
  finally show ?thesis .
qed

lemma true_positives_le_support:
  "length y_true = length y_pred \<Longrightarrow> true_positives y_true y_pred c \<le> support y_true c"
proof -
  assume l: "length y_true = length y_pred"
  have "true_positives y_true y_pred c \<le> length (filter (\<lambda>(t, p). t = c) (zip y_true y_pred))"
    unfolding true_positives_def by (rule length_filter_mono) auto
  also have "\<dots> = support y_true c"
    unfolding support_def using length_filter_zip_fst[OF l, of "\<lambda>t. t = c"] by simp
  finally show ?thesis .
qed

lemma precision_bounds:
  "length y_true = length y_pred \<Longrightarrow>
   0 \<le> precision y_true y_pred c \<and> precision y_true y_pred c \<le> 1"
  using true_positives_le_predicted[of y_true y_pred c]
  by (simp add: precision_def divide_le_eq_1)

lemma recall_bounds:
  "length y_true = length y_pred \<Longrightarrow>
   0 \<le> recall y_true y_pred c \<and> recall y_true y_pred c \<le> 1"
  using true_positives_le_support[of y_true y_pred c]
  by (simp add: recall_def divide_le_eq_1)

lemma harmonic_bounds:
  fixes p r :: real
  assumes "0 \<le> p" "p \<le> 1" "0 \<le> r" "r \<le> 1" "p + r \<noteq> 0"
  shows "0 \<le> 2 * p * r / (p + r)" "2 * p * r / (p + r) \<le> 1"
proof -
  have pos: "0 < p + r" using assms by linarith
  show "0 \<le> 2 * p * r / (p + r)" using assms pos by simp
  have "p * r \<le> p * 1" using assms by (intro mult_left_mono) auto
  moreover have "p * r \<le> 1 * r" using assms by (intro mult_right_mono) auto
  ultimately have "2 * p * r \<le> p + r" by linarith
  then show "2 * p * r / (p + r) \<le> 1" using pos by simp
qed

lemma f1_score_bounds:
  assumes "length y_true = length y_pred"
  shows "0 \<le> f1_score y_true y_pred c \<and> f1_score y_true y_pred c \<le> 1"
  using harmonic_bounds[of "precision y_true y_pred c" "recall y_true y_pred c"]
    precision_bounds[OF assms, of c] recall_bounds[OF assms, of c]
  by (simp add: f1_score_def Let_def)

lemma accuracy_bounds:
  "0 \<le> real (length (filter P xs)) / real (length xs) \<and>
   real (length (filter P xs)) / real (length xs) \<le> 1"
  by (simp add: divide_le_eq_1)

lemma weighted_sum_le:
  fixes w f :: "'a \<Rightarrow> real"
  assumes "\<forall>x\<in>set xs. 0 \<le> w x" "\<forall>x\<in>set xs. f x \<le> M"
  shows "sum_list (map (\<lambda>x. w x * f x) xs) \<le> M * sum_list (map w xs)"
  using assms
proof (induction xs)
  case Nil
  then show ?case by simp
next
  case (Cons x xs)
  have "w x * f x \<le> w x * M" using Cons.prems by (intro mult_left_mono) auto
  moreover have "sum_list (map (\<lambda>x. w x * f x) xs) \<le> M * sum_list (map w xs)"
    using Cons by simp
  ultimately show ?case by (simp add: algebra_simps)
qed

lemma weighted_sum_ge:
  fixes w f :: "'a \<Rightarrow> real"
  assumes "\<forall>x\<in>set xs. 0 \<le> w x" "\<forall>x\<in>set xs. m \<le> f x"
  shows "m * sum_list (map w xs) \<le> sum_list (map (\<lambda>x. w x * f x) xs)"
  using assms
proof (induction xs)
  case Nil
  then show ?case by simp
next
  case (Cons x xs)
  have "w x * m \<le> w x * f x" using Cons.prems by (intro mult_left_mono) auto
  moreover have "m * sum_list (map w xs) \<le> sum_list (map (\<lambda>x. w x * f x) xs)"
    using Cons by simp
  ultimately show ?case by (simp add: algebra_simps)
qed

lemma total_support_pos:
  assumes "y_true \<noteq> []"
  shows "0 < sum_list (map (\<lambda>c. real (support y_true c)) (unique_labels y_true y_pred))"
proof -
  let ?ls = "unique_labels y_true y_pred"
  obtain t where t: "t \<in> set y_true" using assms by (cases y_true) auto
  then have mem: "t \<in> set ?ls" by (simp add: unique_labels_def)
  have "filter (\<lambda>x. x = t) y_true \<noteq> []" using t by (simp add: filter_empty_conv)
  then have pos: "0 < real (support y_true t)" by (simp add: support_def)
  have "real (support y_true t) \<le> sum_list (map (\<lambda>c. real (support y_true c)) ?ls)"
    using mem by (intro member_le_sum_list) auto
  with pos show ?thesis by linarith
qed

lemma weighted_avg_between:
  assumes "y_true \<noteq> []"
  shows "Min (f ` set (unique_labels y_true y_pred))
           \<le> weighted_avg y_true (unique_labels y_true y_pred) f"
    and "weighted_avg y_true (unique_labels y_true y_pred) f
           \<le> Max (f ` set (unique_labels y_true y_pred))"
proof -
  let ?ls = "unique_labels y_true y_pred"
  let ?w = "\<lambda>c. real (support y_true c)"
  let ?W = "sum_list (map ?w ?ls)"
  have W: "0 < ?W" using total_support_pos[OF assms] .
  have fin: "finite (f ` set ?ls)" by simp
  have lo: "\<forall>c\<in>set ?ls. Min (f ` set ?ls) \<le> f c" using fin by simp
  have hi: "\<forall>c\<in>set ?ls. f c \<le> Max (f ` set ?ls)" using fin by simp
  have nn: "\<forall>c\<in>set ?ls. 0 \<le> ?w c" by simp
  have "Min (f ` set ?ls) * ?W \<le> sum_list (map (\<lambda>c. ?w c * f c) ?ls)"
    using weighted_sum_ge[OF nn lo] .
  then show "Min (f ` set ?ls) \<le> weighted_avg y_true ?ls f"
    unfolding weighted_avg_def using W by (simp add: pos_le_divide_eq)
  have "sum_list (map (\<lambda>c. ?w c * f c) ?ls) \<le> Max (f ` set ?ls) * ?W"
    using weighted_sum_le[OF nn hi] .
  then show "weighted_avg y_true ?ls f \<le> Max (f ` set ?ls)"
    unfolding weighted_avg_def using W by (simp add: pos_divide_le_eq)
qed

lemma classification_report_bounds:
  assumes ne: "y_true \<noteq> []" and len: "length y_pred = length y_true"
  shows "\<exists>r. classification_report y_true y_pred = Inr r \<and>
      accuracy_score y_true y_pred = Inr (accuracy r) \<and>
      accuracy r = real (length (filter (\<lambda>(t, p). t = p) (zip y_true y_pred))) /
                   real (length y_true) \<and>
      0 \<le> accuracy r \<and> accuracy r \<le> 1 \<and>
      map label (per_class r) = unique_labels y_true y_pred \<and>
      (\<forall>row\<in>set (per_class r).
         row_precision row = precision y_true y_pred (label row) \<and>
         row_recall row = recall y_true y_pred (label row) \<and>
         row_f1 row = f1_score y_true y_pred (label row) \<and>
         0 \<le> row_precision row \<and> row_precision row \<le> 1 \<and>
         0 \<le> row_recall row \<and> row_recall row \<le> 1 \<and>
         0 \<le> row_f1 row \<and> row_f1 row \<le> 1) \<and>
      Min (row_f1 ` set (per_class r)) \<le> weighted_f1 r \<and>
      weighted_f1 r \<le> Max (row_f1 ` set (per_class r))"
proof -
  let ?ls = "unique_labels y_true y_pred"
  let ?acc = "real (length (filter (\<lambda>(t, p). t = p) (zip y_true y_pred))) / real (length y_true)"
  let ?row = "\<lambda>c. \<lparr>label = c, row_precision = precision y_true y_pred c,
      row_recall = recall y_true y_pred c, row_f1 = f1_score y_true y_pred c,
      row_support = support y_true c\<rparr>"
  let ?r = "\<lparr>per_class = map ?row ?ls, accuracy = ?acc,
      weighted_precision = weighted_avg y_true ?ls (precision y_true y_pred),
      weighted_recall = weighted_avg y_true ?ls (recall y_true y_pred),
      weighted_f1 = weighted_avg y_true ?ls (f1_score y_true y_pred)\<rparr>"
  have l: "length y_true = length y_pred" using len by simp
  have acc: "accuracy_score y_true y_pred = Inr ?acc" using l by (simp add: accuracy_score_def)
  have rep: "classification_report y_true y_pred = Inr ?r"
    by (simp add: classification_report_def acc and_then_def Let_def)
  have zl: "length (zip y_true y_pred) = length y_true" using l by simp
  have ab: "0 \<le> ?acc \<and> ?acc \<le> 1"
    using accuracy_bounds[of "\<lambda>(t, p). t = p" "zip y_true y_pred"] zl by simp
  have img: "row_f1 ` set (per_class ?r) = f1_score y_true y_pred ` set ?ls"
    by (auto simp: image_iff)
  have rowsP: "\<forall>row\<in>set (per_class ?r).
         row_precision row = precision y_true y_pred (label row) \<and>
         row_recall row = recall y_true y_pred (label row) \<and>
         row_f1 row = f1_score y_true y_pred (label row) \<and>
         0 \<le> row_precision row \<and> row_precision row \<le> 1 \<and>
         0 \<le> row_recall row \<and> row_recall row \<le> 1 \<and>
         0 \<le> row_f1 row \<and> row_f1 row \<le> 1"
    using precision_bounds[OF l] recall_bounds[OF l] f1_score_bounds[OF l] by auto
  have wl: "Min (row_f1 ` set (per_class ?r)) \<le> weighted_f1 ?r"
    and wu: "weighted_f1 ?r \<le> Max (row_f1 ` set (per_class ?r))"
    unfolding img using weighted_avg_between[OF ne, where f = "f1_score y_true y_pred" and y_pred = y_pred]
    by simp_all
  have lab: "map label (per_class ?r) = ?ls" by (simp add: comp_def)
  show ?thesis
    using rep acc ab lab rowsP wl wu by (intro exI[of _ ?r]) simp
qed

lemma report_after_accuracy:
  "accuracy_score y_true y_pred = Inr acc \<Longrightarrow> \<exists>rep. classification_report y_true y_pred = Inr rep"
  by (simp add: classification_report_def and_then_def Let_def)

lemma model_cell_eq:
  "model_cell lib clf name assign s =
     (case fit_predict_score lib clf s of
        Inl e \<Rightarrow> (s, Inl e)
      | Inr v \<Rightarrow> (assign (fst v) s, Inr (Scores name (fst v) (snd v))))"
proof (cases "fit lib clf (X_train s) (map snd (y_train s))")
  case (Inl e)
  then show ?thesis by (simp add: model_cell_def fit_predict_score_def step_def and_then_def)
next
  case fitted: (Inr fitted)
  show ?thesis
  proof (cases "predict lib fitted (X_test s)")
    case (Inl e)
    then show ?thesis
      using fitted by (simp add: model_cell_def fit_predict_score_def step_def and_then_def)
  next
    case pred: (Inr y_pred)
    show ?thesis
    proof (cases "accuracy_score (map snd (y_test s)) y_pred")
      case (Inl e)
      then show ?thesis
        using fitted pred
        by (simp add: model_cell_def fit_predict_score_def step_def and_then_def)
    next
      case (Inr acc)
      from report_after_accuracy[OF this] obtain rep where
        "classification_report (map snd (y_test s)) y_pred = Inr rep" by blast
      then show ?thesis
        using fitted pred Inr
        by (simp add: model_cell_def fit_predict_score_def step_def and_then_def Let_def)
    qed
  qed
qed

lemma model_cell_metrics:
  assumes ne: "y_test s \<noteq> []"
    and fitted: "fit lib clf (X_train s) (map snd (y_train s)) = Inr fitted"
    and pred: "predict lib fitted (X_test s) = Inr y_pred"
    and len: "length y_pred = length (y_test s)"
  shows "\<exists>rep. model_cell lib clf name assign s =
        (assign (accuracy rep) s, Inr (Scores name (accuracy rep) rep)) \<and>
      accuracy rep = real (length (filter (\<lambda>(t, p). t = p) (zip (map snd (y_test s)) y_pred))) /
                     real (length (y_test s)) \<and>
      0 \<le> accuracy rep \<and> accuracy rep \<le> 1 \<and>
      map label (per_class rep) = unique_labels (map snd (y_test s)) y_pred \<and>
      (\<forall>row\<in>set (per_class rep).
         row_precision row = precision (map snd (y_test s)) y_pred (label row) \<and>
         row_recall row = recall (map snd (y_test s)) y_pred (label row) \<and>
         row_f1 row = f1_score (map snd (y_test s)) y_pred (label row) \<and>
         0 \<le> row_precision row \<and> row_precision row \<le> 1 \<and>
         0 \<le> row_recall row \<and> row_recall row \<le> 1 \<and>
         0 \<le> row_f1 row \<and> row_f1 row \<le> 1) \<and>
      Min (row_f1 ` set (per_class rep)) \<le> weighted_f1 rep \<and>
      weighted_f1 rep \<le> Max (row_f1 ` set (per_class rep))"
proof -
  let ?y = "map snd (y_test s)"
  have ne': "?y \<noteq> []" using ne by simp
  have len': "length y_pred = length ?y" using len by simp
  from classification_report_bounds[OF ne' len'] obtain rep where
    rep: "classification_report ?y y_pred = Inr rep"
    and acc: "accuracy_score ?y y_pred = Inr (accuracy rep)"
    and rest: "accuracy rep = real (length (filter (\<lambda>(t, p). t = p) (zip ?y y_pred))) /
                   real (length ?y)"
      "0 \<le> accuracy rep" "accuracy rep \<le> 1"
      "map label (per_class rep) = unique_labels ?y y_pred"
      "\<forall>row\<in>set (per_class rep).
         row_precision row = precision ?y y_pred (label row) \<and>
         row_recall row = recall ?y y_pred (label row) \<and>
         row_f1 row = f1_score ?y y_pred (label row) \<and>
         0 \<le> row_precision row \<and> row_precision row \<le> 1 \<and>
         0 \<le> row_recall row \<and> row_recall row \<le> 1 \<and>
         0 \<le> row_f1 row \<and> row_f1 row \<le> 1"
      "Min (row_f1 ` set (per_class rep)) \<le> weighted_f1 rep"
      "weighted_f1 rep \<le> Max (row_f1 ` set (per_class rep))"
    by blast
  have cell: "model_cell lib clf name assign s =
        (assign (accuracy rep) s, Inr (Scores name (accuracy rep) rep))"
    using fitted pred acc rep
    by (simp add: model_cell_def step_def Let_def)
  have r1: "accuracy rep =
      real (length (filter (\<lambda>(t, p). t = p) (zip ?y y_pred))) / real (length (y_test s))"
    using rest(1) by simp
  show ?thesis using cell r1 rest(2-) by blast
qed

text \<open>
  C8. Take any of the five model cells, on variables with at least one evaluation row
  (as they are after splitting, \<open>preprocess_test_rows\<close>), and let the cell's classifier
  fit and predict one label per evaluation row. Then the
  cell returns; the accuracy it prints, which is the one it assigns to its accuracy
  variable and the one in the report it prints, is the number of predictions equal to the
  true label over the number of evaluation rows, and lies in [0, 1]; the report has one row
  per label, whose precision, recall and F1 lie in [0, 1]; and the weighted average of F1
  lies between the least and the greatest F1 of the rows.
\<close>

theorem model_cells_report_metrics:
  assumes ne: "y_test s \<noteq> []"
  shows "\<forall>k<5. \<forall>fitted y_pred.
      fit lib (panel_classifiers ! k) (X_train s) (map snd (y_train s)) = Inr fitted \<and>
      predict lib fitted (X_test s) = Inr y_pred \<and>
      length y_pred = length (y_test s) \<longrightarrow>
      (\<exists>name acc rep s'.
         (model_cells lib ! k) s = (s', Inr (Scores name acc rep)) \<and>
         snd (accuracy_vars ! k) s' = Some acc \<and> accuracy rep = acc \<and>
         acc = real (length (filter (\<lambda>(t, p). t = p) (zip (map snd (y_test s)) y_pred))) /
               real (length (y_test s)) \<and>
         0 \<le> acc \<and> acc \<le> 1 \<and>
         map label (per_class rep) = unique_labels (map snd (y_test s)) y_pred \<and>
         (\<forall>row\<in>set (per_class rep).
            row_precision row = precision (map snd (y_test s)) y_pred (label row) \<and>
            row_recall row = recall (map snd (y_test s)) y_pred (label row) \<and>
            row_f1 row = f1_score (map snd (y_test s)) y_pred (label row) \<and>
            0 \<le> row_precision row \<and> row_precision row \<le> 1 \<and>
            0 \<le> row_recall row \<and> row_recall row \<le> 1 \<and>
            0 \<le> row_f1 row \<and> row_f1 row \<le> 1) \<and>
         Min (row_f1 ` set (per_class rep)) \<le> weighted_f1 rep \<and>
         weighted_f1 rep \<le> Max (row_f1 ` set (per_class rep)))"
proof (intro allI impI)
  fix k fitted y_pred
  assume k: "k < 5"
    and lib: "fit lib (panel_classifiers ! k) (X_train s) (map snd (y_train s)) = Inr fitted \<and>
      predict lib fitted (X_test s) = Inr y_pred \<and>
      length y_pred = length (y_test s)"
  let ?P = "\<lambda>name acc rep s'.
         (model_cells lib ! k) s = (s', Inr (Scores name acc rep)) \<and>
         snd (accuracy_vars ! k) s' = Some acc \<and> accuracy rep = acc \<and>
         acc = real (length (filter (\<lambda>(t, p). t = p) (zip (map snd (y_test s)) y_pred))) /
               real (length (y_test s)) \<and>
         0 \<le> acc \<and> acc \<le> 1 \<and>
         map label (per_class rep) = unique_labels (map snd (y_test s)) y_pred \<and>
         (\<forall>row\<in>set (per_class rep).
            row_precision row = precision (map snd (y_test s)) y_pred (label row) \<and>
            row_recall row = recall (map snd (y_test s)) y_pred (label row) \<and>
            row_f1 row = f1_score (map snd (y_test s)) y_pred (label row) \<and>
            0 \<le> row_precision row \<and> row_precision row \<le> 1 \<and>
            0 \<le> row_recall row \<and> row_recall row \<le> 1 \<and>
            0 \<le> row_f1 row \<and> row_f1 row \<le> 1) \<and>
         Min (row_f1 ` set (per_class rep)) \<le> weighted_f1 rep \<and>
         weighted_f1 rep \<le> Max (row_f1 ` set (per_class rep))"
  from k consider "k = 0" | "k = 1" | "k = 2" | "k = 3" | "k = 4" by linarith
  then show "\<exists>name acc rep s'. ?P name acc rep s'"
  proof cases
    case 1
    from lib have f: "fit lib (LogisticRegression 200) (X_train s) (map snd (y_train s)) = Inr fitted"
      and p: "predict lib fitted (X_test s) = Inr y_pred" and l: "length y_pred = length (y_test s)"
      by (simp_all add: 1 panel_classifiers_def)
    from model_cell_metrics[OF ne f p l, of "''Logistic Regression''"
        "\<lambda>acc s. s\<lparr>accuracy_log_reg := Some acc\<rparr>"]
    obtain rep where "?P ''Logistic Regression'' (accuracy rep) rep (s\<lparr>accuracy_log_reg := Some (accuracy rep)\<rparr>)"
      by (auto simp: 1 model_cells_def log_reg_cell_def accuracy_vars_def)
    then show ?thesis by blast
  next
    case 2
    from lib have f: "fit lib (DecisionTreeClassifier 42) (X_train s) (map snd (y_train s)) = Inr fitted"
      and p: "predict lib fitted (X_test s) = Inr y_pred" and l: "length y_pred = length (y_test s)"
      by (simp_all add: 2 panel_classifiers_def)
    from model_cell_metrics[OF ne f p l, of "''Decision Tree''"
        "\<lambda>acc s. s\<lparr>accuracy_dtree := Some acc\<rparr>"]
    obtain rep where "?P ''Decision Tree'' (accuracy rep) rep (s\<lparr>accuracy_dtree := Some (accuracy rep)\<rparr>)"
      by (auto simp: 2 model_cells_def dtree_cell_def accuracy_vars_def)
    then show ?thesis by blast
  next
    case 3
    from lib have f: "fit lib (RandomForestClassifier 100 42) (X_train s) (map snd (y_train s)) = Inr fitted"
      and p: "predict lib fitted (X_test s) = Inr y_pred" and l: "length y_pred = length (y_test s)"
      by (simp_all add: 3 panel_classifiers_def)
    from model_cell_metrics[OF ne f p l, of "''Random Forest''"
        "\<lambda>acc s. s\<lparr>accuracy_rf := Some acc\<rparr>"]
    obtain rep where "?P ''Random Forest'' (accuracy rep) rep (s\<lparr>accuracy_rf := Some (accuracy rep)\<rparr>)"
      by (auto simp: 3 model_cells_def rf_cell_def accuracy_vars_def)
    then show ?thesis by blast
  next
    case 4
    from lib have f: "fit lib (SVC ''linear'' 42) (X_train s) (map snd (y_train s)) = Inr fitted"
      and p: "predict lib fitted (X_test s) = Inr y_pred" and l: "length y_pred = length (y_test s)"
      by (simp_all add: 4 panel_classifiers_def)
    from model_cell_metrics[OF ne f p l, of "''SVM''"
        "\<lambda>acc s. s\<lparr>accuracy_svm := Some acc\<rparr>"]
    obtain rep where "?P ''SVM'' (accuracy rep) rep (s\<lparr>accuracy_svm := Some (accuracy rep)\<rparr>)"
      by (auto simp: 4 model_cells_def svm_cell_def accuracy_vars_def)
    then show ?thesis by blast
  next
    case 5
    from lib have f: "fit lib (KNeighborsClassifier 5) (X_train s) (map snd (y_train s)) = Inr fitted"
      and p: "predict lib fitted (X_test s) = Inr y_pred" and l: "length y_pred = length (y_test s)"
      by (simp_all add: 5 panel_classifiers_def)
    from model_cell_metrics[OF ne f p l, of "''KNN''"
        "\<lambda>acc s. s\<lparr>accuracy_knn := Some acc\<rparr>"]
    obtain rep where "?P ''KNN'' (accuracy rep) rep (s\<lparr>accuracy_knn := Some (accuracy rep)\<rparr>)"
      by (auto simp: 5 model_cells_def knn_cell_def accuracy_vars_def)
    then show ?thesis by blast
  qed
qed

lemma small_fit:
  "fit small_estimators clf (X_train small_wine_nb) (map snd (y_train small_wine_nb)) = Inr [1, 0]"
  by (cases clf) (simp_all add: small_estimators_def small_wine_nb_def small_y_train_def)

lemma small_predict:
  "predict small_estimators [1, 0] (X_test small_wine_nb) = Inr [1, 0]"
  by (simp add: small_estimators_def small_wine_nb_def)

lemma small_classification_report:
  "classification_report [1, 1] [1, 0] = Inr small_report"
  by (simp add: classification_report_def accuracy_score_def and_then_def unique_labels_def
      precision_def recall_def f1_score_def support_def true_positives_def weighted_avg_def
      Let_def small_report_def)

lemma small_fit_predict_score:
  "fit_predict_score small_estimators clf small_wine_nb = Inr (1 / 2, small_report)"
proof -
  have y: "map snd (y_test small_wine_nb) = [1, 1]"
    by (simp add: small_wine_nb_def small_y_test_def)
  have acc: "accuracy_score [1, 1] [1, 0] = Inr (1 / 2)"
    by (simp add: accuracy_score_def)
  show ?thesis
    unfolding fit_predict_score_def small_fit and_then_def sum.case small_predict y acc
      small_classification_report
    by simp
qed

lemma small_model_cell:
  "model_cell small_estimators clf name assign small_wine_nb =
     (assign (1 / 2) small_wine_nb, Inr (Scores name (1 / 2) small_report))"
  by (simp add: model_cell_eq small_fit_predict_score)

theorem model_cells_report_metrics_witness:
  "y_test small_wine_nb \<noteq> [] \<and>
   fit small_estimators (panel_classifiers ! 0) (X_train small_wine_nb)
     (map snd (y_train small_wine_nb)) = Inr [1, 0] \<and>
   predict small_estimators [1, 0] (X_test small_wine_nb) = Inr [1, 0] \<and>
   length [1, 0 :: int] = length (y_test small_wine_nb) \<and>
   map snd (y_test small_wine_nb) = [1, 1] \<and>
   (model_cells small_estimators ! 0) small_wine_nb =
     (small_wine_nb\<lparr>accuracy_log_reg := Some (1 / 2)\<rparr>,
      Inr (Scores ''Logistic Regression'' (1 / 2) small_report)) \<and>
   (1 / 2 :: real) = real (length (filter (\<lambda>(t, p). t = p) (zip [1, 1 :: int] [1, 0]))) /
                     real (length (y_test small_wine_nb)) \<and>
   accuracy small_report = 1 / 2 \<and>
   map label (per_class small_report) = unique_labels [1, 1] [1, 0] \<and>
   Min (row_f1 ` set (per_class small_report)) \<le> weighted_f1 small_report \<and>
   weighted_f1 small_report \<le> Max (row_f1 ` set (per_class small_report))"
proof -
  have ne: "y_test small_wine_nb \<noteq> []" by (simp add: small_wine_nb_def small_y_test_def)
  have f: "fit small_estimators (panel_classifiers ! 0) (X_train small_wine_nb)
     (map snd (y_train small_wine_nb)) = Inr [1, 0]"
    using small_fit .
  have l: "length [1, 0 :: int] = length (y_test small_wine_nb)"
    by (simp add: small_wine_nb_def small_y_test_def)
  have y: "map snd (y_test small_wine_nb) = [1, 1]"
    by (simp add: small_wine_nb_def small_y_test_def)
  have c: "(model_cells small_estimators ! 0) small_wine_nb =
     (small_wine_nb\<lparr>accuracy_log_reg := Some (1 / 2)\<rparr>,
      Inr (Scores ''Logistic Regression'' (1 / 2) small_report))"
    by (simp add: model_cells_def log_reg_cell_def small_model_cell)
  have k: "(0 :: nat) < 5" by simp
  from model_cells_report_metrics[OF ne, of small_estimators, rule_format, OF k,
      of "[1, 0]" "[1, 0]"] f small_predict l
  obtain name acc rep s' where
    r: "(model_cells small_estimators ! 0) small_wine_nb = (s', Inr (Scores name acc rep))"
      "accuracy rep = acc"
      "acc = real (length (filter (\<lambda>(t, p). t = p) (zip (map snd (y_test small_wine_nb)) [1, 0]))) /
               real (length (y_test small_wine_nb))"
      "map label (per_class rep) = unique_labels (map snd (y_test small_wine_nb)) [1, 0]"
      "Min (row_f1 ` set (per_class rep)) \<le> weighted_f1 rep"
      "weighted_f1 rep \<le> Max (row_f1 ` set (per_class rep))"
    by blast
  from r(1) c have eq: "acc = 1 / 2" "rep = small_report" by simp_all
  show ?thesis
    using ne f small_predict l y c r(2-) unfolding eq y by simp
qed

subsection \<open>A fit that fails\<close>

lemma fit_predict_score_upd [simp]:
  "fit_predict_score lib clf (s\<lparr>accuracy_log_reg := a\<rparr>) = fit_predict_score lib clf s"
  "fit_predict_score lib clf (s\<lparr>accuracy_dtree := a\<rparr>) = fit_predict_score lib clf s"
  "fit_predict_score lib clf (s\<lparr>accuracy_rf := a\<rparr>) = fit_predict_score lib clf s"
  "fit_predict_score lib clf (s\<lparr>accuracy_svm := a\<rparr>) = fit_predict_score lib clf s"
  "fit_predict_score lib clf (s\<lparr>accuracy_knn := a\<rparr>) = fit_predict_score lib clf s"
  by (simp_all add: fit_predict_score_def)

lemma fit_fails:
  "fit lib clf (X_train s) (map snd (y_train s)) = Inl e \<Longrightarrow> fit_predict_score lib clf s = Inl e"
  by (simp add: fit_predict_score_def and_then_def)

lemma predict_fails:
  "fit lib clf (X_train s) (map snd (y_train s)) = Inr fitted \<Longrightarrow>
   predict lib fitted (X_test s) = Inl e \<Longrightarrow> fit_predict_score lib clf s = Inl e"
  by (simp add: fit_predict_score_def and_then_def)

lemma run_all_panel:
  "run_all (panel lib sv) s =
     (case fit_predict_score lib (LogisticRegression 200) s of
        Inl e \<Rightarrow> (s, Some e)
      | Inr v0 \<Rightarrow>
     (case fit_predict_score lib (DecisionTreeClassifier 42) s of
        Inl e \<Rightarrow> (s\<lparr>accuracy_log_reg := Some (fst v0)\<rparr>, Some e)
      | Inr v1 \<Rightarrow>
     (case fit_predict_score lib (RandomForestClassifier 100 42) s of
        Inl e \<Rightarrow> (s\<lparr>accuracy_log_reg := Some (fst v0), accuracy_dtree := Some (fst v1)\<rparr>, Some e)
      | Inr v2 \<Rightarrow>
     (case fit_predict_score lib (SVC ''linear'' 42) s of
        Inl e \<Rightarrow> (s\<lparr>accuracy_log_reg := Some (fst v0), accuracy_dtree := Some (fst v1),
                     accuracy_rf := Some (fst v2)\<rparr>, Some e)
      | Inr v3 \<Rightarrow>
     (case fit_predict_score lib (KNeighborsClassifier 5) s of
        Inl e \<Rightarrow> (s\<lparr>accuracy_log_reg := Some (fst v0), accuracy_dtree := Some (fst v1),
                     accuracy_rf := Some (fst v2), accuracy_svm := Some (fst v3)\<rparr>, Some e)
      | Inr v4 \<Rightarrow>
          (s\<lparr>accuracy_log_reg := Some (fst v0), accuracy_dtree := Some (fst v1),
             accuracy_rf := Some (fst v2), accuracy_svm := Some (fst v3),
             accuracy_knn := Some (fst v4),
             model_comparison := Some (sv
               [(0, ''Logistic Regression'', fst v0), (1, ''Decision Tree'', fst v1),
                (2, ''Random Forest'', fst v2), (3, ''SVM'', fst v3), (4, ''KNN'', fst v4)])\<rparr>,
           None))))))"
  by (simp add: panel_def model_cells_def log_reg_cell_def dtree_cell_def rf_cell_def
      svm_cell_def knn_cell_def model_cell_eq compare_cell_def step_def read_var_def Let_def
      split: sum.splits)

lemma compare_cell_accuracy:
  "accuracy_log_reg (fst (compare_cell sv t)) = accuracy_log_reg t"
  "accuracy_dtree (fst (compare_cell sv t)) = accuracy_dtree t"
  "accuracy_rf (fst (compare_cell sv t)) = accuracy_rf t"
  "accuracy_svm (fst (compare_cell sv t)) = accuracy_svm t"
  "accuracy_knn (fst (compare_cell sv t)) = accuracy_knn t"
  by (simp_all add: compare_cell_def step_def Let_def split: sum.splits)

lemma run_each_panel:
  "run_each (panel lib sv) s =
     (let s1 = (case fit_predict_score lib (LogisticRegression 200) s of
                  Inl e \<Rightarrow> s | Inr v \<Rightarrow> s\<lparr>accuracy_log_reg := Some (fst v)\<rparr>);
          s2 = (case fit_predict_score lib (DecisionTreeClassifier 42) s of
                  Inl e \<Rightarrow> s1 | Inr v \<Rightarrow> s1\<lparr>accuracy_dtree := Some (fst v)\<rparr>);
          s3 = (case fit_predict_score lib (RandomForestClassifier 100 42) s of
                  Inl e \<Rightarrow> s2 | Inr v \<Rightarrow> s2\<lparr>accuracy_rf := Some (fst v)\<rparr>);
          s4 = (case fit_predict_score lib (SVC ''linear'' 42) s of
                  Inl e \<Rightarrow> s3 | Inr v \<Rightarrow> s3\<lparr>accuracy_svm := Some (fst v)\<rparr>);
          s5 = (case fit_predict_score lib (KNeighborsClassifier 5) s of
                  Inl e \<Rightarrow> s4 | Inr v \<Rightarrow> s4\<lparr>accuracy_knn := Some (fst v)\<rparr>)
      in (fst (compare_cell sv s5),
          map (\<lambda>clf. case fit_predict_score lib clf s of Inl e \<Rightarrow> Some e | Inr v \<Rightarrow> None)
            panel_classifiers @
          [case snd (compare_cell sv s5) of Inl e \<Rightarrow> Some e | Inr out \<Rightarrow> None]))"
proof -
  have one: "\<And>clf name assign t.
      (\<And>a u. fit_predict_score lib clf (assign a u) = fit_predict_score lib clf u) \<Longrightarrow>
      fit_predict_score lib clf t = fit_predict_score lib clf s \<Longrightarrow>
      model_cell lib clf name assign t =
        (case fit_predict_score lib clf s of Inl e \<Rightarrow> t | Inr v \<Rightarrow> assign (fst v) t,
         case fit_predict_score lib clf s of
           Inl e \<Rightarrow> Inl e | Inr v \<Rightarrow> Inr (Scores name (fst v) (snd v)))"
    by (simp add: model_cell_eq split: sum.splits)
  have keep: "\<And>clf (r :: error + real \<times> report) f t.
      (\<And>a u. fit_predict_score lib clf (f a u) = fit_predict_score lib clf u) \<Longrightarrow>
      fit_predict_score lib clf (case r of Inl e \<Rightarrow> t | Inr v \<Rightarrow> f (fst v) t) =
      fit_predict_score lib clf t"
    by (simp split: sum.splits)
  show ?thesis
    unfolding panel_def model_cells_def log_reg_cell_def dtree_cell_def rf_cell_def
      svm_cell_def knn_cell_def panel_classifiers_def Let_def
    by (simp add: one keep case_prod_beta split: sum.splits)
qed

lemma all_less_5: "(\<forall>i<5. P i) \<longleftrightarrow> P 0 \<and> P 1 \<and> P 2 \<and> P 3 \<and> P (4::nat)"
proof
  assume "\<forall>i<5. P i"
  then show "P 0 \<and> P 1 \<and> P 2 \<and> P 3 \<and> P 4" by simp
next
  assume h: "P 0 \<and> P 1 \<and> P 2 \<and> P 3 \<and> P 4"
  show "\<forall>i<5. P i"
  proof (intro allI impI)
    fix i :: nat assume "i < 5"
    then consider "i = 0" | "i = 1" | "i = 2" | "i = 3" | "i = 4" by linarith
    then show "P i" using h by cases simp_all
  qed
qed

lemma panel_classifiers_nth:
  "panel_classifiers ! 0 = LogisticRegression 200"
  "panel_classifiers ! 1 = DecisionTreeClassifier 42"
  "panel_classifiers ! Suc 0 = DecisionTreeClassifier 42"
  "panel_classifiers ! 2 = RandomForestClassifier 100 42"
  "panel_classifiers ! 3 = SVC ''linear'' 42"
  "panel_classifiers ! 4 = KNeighborsClassifier 5"
  by (simp_all add: panel_classifiers_def)

lemma accuracy_vars_nth:
  "accuracy_vars ! 0 = (''accuracy_log_reg'', accuracy_log_reg)"
  "accuracy_vars ! 1 = (''accuracy_dtree'', accuracy_dtree)"
  "accuracy_vars ! Suc 0 = (''accuracy_dtree'', accuracy_dtree)"
  "accuracy_vars ! 2 = (''accuracy_rf'', accuracy_rf)"
  "accuracy_vars ! 3 = (''accuracy_svm'', accuracy_svm)"
  "accuracy_vars ! 4 = (''accuracy_knn'', accuracy_knn)"
  by (simp_all add: accuracy_vars_def)

lemma model_cells_nth:
  "model_cells lib ! 0 = log_reg_cell lib"
  "model_cells lib ! 1 = dtree_cell lib"
  "model_cells lib ! Suc 0 = dtree_cell lib"
  "model_cells lib ! 2 = rf_cell lib"
  "model_cells lib ! 3 = svm_cell lib"
  "model_cells lib ! 4 = knn_cell lib"
  by (simp_all add: model_cells_def)

lemma fresh_vars:
  assumes "\<forall>v\<in>set accuracy_vars. snd v s = None"
  shows "accuracy_log_reg s = None" "accuracy_dtree s = None" "accuracy_rf s = None"
    "accuracy_svm s = None" "accuracy_knn s = None"
  using assms by (simp_all add: accuracy_vars_def)

lemma run_each_accuracies:
  assumes fresh: "\<forall>v\<in>set accuracy_vars. snd v s = None"
  shows "\<forall>i<5. snd (accuracy_vars ! i) (fst (run_each (panel lib sv) s)) =
           (case fit_predict_score lib (panel_classifiers ! i) s of
              Inl e \<Rightarrow> None | Inr v \<Rightarrow> Some (fst v))"
  unfolding all_less_5 panel_classifiers_nth accuracy_vars_nth
  by (simp add: run_each_panel Let_def compare_cell_accuracy fresh_vars[OF fresh]
      split: sum.splits)

lemma run_each_exceptions:
  "take 5 (snd (run_each (panel lib sv) s)) =
     map (\<lambda>clf. case fit_predict_score lib clf s of Inl e \<Rightarrow> Some e | Inr v \<Rightarrow> None)
       panel_classifiers \<and>
   length (snd (run_each (panel lib sv) s)) = 6"
  by (simp add: run_each_panel Let_def panel_classifiers_def)

lemma compare_cell_missing:
  "accuracy_log_reg t = None \<Longrightarrow>
     compare_cell sv t = (t, Inl (NameError ''accuracy_log_reg''))"
  "accuracy_log_reg t = Some a0 \<Longrightarrow> accuracy_dtree t = None \<Longrightarrow>
     compare_cell sv t = (t, Inl (NameError ''accuracy_dtree''))"
  "accuracy_log_reg t = Some a0 \<Longrightarrow> accuracy_dtree t = Some a1 \<Longrightarrow> accuracy_rf t = None \<Longrightarrow>
     compare_cell sv t = (t, Inl (NameError ''accuracy_rf''))"
  "accuracy_log_reg t = Some a0 \<Longrightarrow> accuracy_dtree t = Some a1 \<Longrightarrow> accuracy_rf t = Some a2 \<Longrightarrow>
   accuracy_svm t = None \<Longrightarrow>
     compare_cell sv t = (t, Inl (NameError ''accuracy_svm''))"
  "accuracy_log_reg t = Some a0 \<Longrightarrow> accuracy_dtree t = Some a1 \<Longrightarrow> accuracy_rf t = Some a2 \<Longrightarrow>
   accuracy_svm t = Some a3 \<Longrightarrow> accuracy_knn t = None \<Longrightarrow>
     compare_cell sv t = (t, Inl (NameError ''accuracy_knn''))"
  by (simp_all add: compare_cell_def step_def read_var_def)

lemma stops_at_first_failure:
  assumes fresh: "\<forall>v\<in>set accuracy_vars. snd v s = None"
    and k: "k < 5"
    and fails: "fit_predict_score lib (panel_classifiers ! k) s = Inl e"
    and before: "\<forall>i<k. \<exists>v. fit_predict_score lib (panel_classifiers ! i) s = Inr v"
  shows "(model_cells lib ! k) s = (s, Inl e) \<and>
         snd (run_all (panel lib sv) s) = Some e \<and>
         (\<forall>i<5. snd (accuracy_vars ! i) (fst (run_all (panel lib sv) s)) =
            (if i < k then (case fit_predict_score lib (panel_classifiers ! i) s of
                              Inl e' \<Rightarrow> None | Inr v \<Rightarrow> Some (fst v))
             else None)) \<and>
         model_comparison (fst (run_all (panel lib sv) s)) = model_comparison s \<and>
         snd (run_each (panel lib sv) s) ! 5 = Some (NameError (fst (accuracy_vars ! k))) \<and>
         model_comparison (fst (run_each (panel lib sv) s)) = model_comparison s"
proof -
  note fr = fresh_vars[OF fresh]
  from k consider "k = 0" | "k = 1" | "k = 2" | "k = 3" | "k = 4" by linarith
  then show ?thesis
  proof cases
    case 1
    have r0: "fit_predict_score lib (LogisticRegression 200) s = Inl e"
      using fails by (simp add: 1 panel_classifiers_nth)
    show ?thesis
      unfolding all_less_5 1 panel_classifiers_nth accuracy_vars_nth model_cells_nth
      by (simp add: r0 fr run_all_panel run_each_panel Let_def log_reg_cell_def model_cell_eq
          compare_cell_missing panel_classifiers_def split: sum.splits)
  next
    case 2
    have r1: "fit_predict_score lib (DecisionTreeClassifier 42) s = Inl e"
      using fails by (simp add: 2 panel_classifiers_nth)
    from before[rule_format, of 0] obtain v0 where
      r0: "fit_predict_score lib (LogisticRegression 200) s = Inr v0"
      by (auto simp: 2 panel_classifiers_nth)
    show ?thesis
      unfolding all_less_5 2 panel_classifiers_nth accuracy_vars_nth model_cells_nth
      by (simp add: r0 r1 fr run_all_panel run_each_panel Let_def dtree_cell_def model_cell_eq
          compare_cell_missing panel_classifiers_def split: sum.splits)
  next
    case 3
    have r2: "fit_predict_score lib (RandomForestClassifier 100 42) s = Inl e"
      using fails by (simp add: 3 panel_classifiers_nth)
    from before[rule_format, of 0] before[rule_format, of 1] obtain v0 v1 where
      r0: "fit_predict_score lib (LogisticRegression 200) s = Inr v0"
      and r1: "fit_predict_score lib (DecisionTreeClassifier 42) s = Inr v1"
      by (auto simp: 3 panel_classifiers_nth)
    show ?thesis
      unfolding all_less_5 3 panel_classifiers_nth accuracy_vars_nth model_cells_nth
      by (simp add: r0 r1 r2 fr run_all_panel run_each_panel Let_def rf_cell_def model_cell_eq
          compare_cell_missing panel_classifiers_def split: sum.splits)
  next
    case 4
    have r3: "fit_predict_score lib (SVC ''linear'' 42) s = Inl e"
      using fails by (simp add: 4 panel_classifiers_nth)
    from before[rule_format, of 0] before[rule_format, of 1] before[rule_format, of 2]
    obtain v0 v1 v2 where
      r0: "fit_predict_score lib (LogisticRegression 200) s = Inr v0"
      and r1: "fit_predict_score lib (DecisionTreeClassifier 42) s = Inr v1"
      and r2: "fit_predict_score lib (RandomForestClassifier 100 42) s = Inr v2"
      by (auto simp: 4 panel_classifiers_nth)
    show ?thesis
      unfolding all_less_5 4 panel_classifiers_nth accuracy_vars_nth model_cells_nth
      by (simp add: r0 r1 r2 r3 fr run_all_panel run_each_panel Let_def svm_cell_def
          model_cell_eq compare_cell_missing panel_classifiers_def split: sum.splits)
  next
    case 5
    have r4: "fit_predict_score lib (KNeighborsClassifier 5) s = Inl e"
      using fails by (simp add: 5 panel_classifiers_nth)
    from before[rule_format, of 0] before[rule_format, of 1] before[rule_format, of 2]
      before[rule_format, of 3]
    obtain v0 v1 v2 v3 where
      r0: "fit_predict_score lib (LogisticRegression 200) s = Inr v0"
      and r1: "fit_predict_score lib (DecisionTreeClassifier 42) s = Inr v1"
      and r2: "fit_predict_score lib (RandomForestClassifier 100 42) s = Inr v2"
      and r3: "fit_predict_score lib (SVC ''linear'' 42) s = Inr v3"
      by (auto simp: 5 panel_classifiers_nth)
    show ?thesis
      unfolding all_less_5 5 panel_classifiers_nth accuracy_vars_nth model_cells_nth
      by (simp add: r0 r1 r2 r3 r4 fr run_all_panel run_each_panel Let_def knn_cell_def
          model_cell_eq compare_cell_missing panel_classifiers_def)
  qed
qed

lemma all_fits_succeed:
  assumes "fit_predict_score lib (LogisticRegression 200) s = Inr v0"
    and "fit_predict_score lib (DecisionTreeClassifier 42) s = Inr v1"
    and "fit_predict_score lib (RandomForestClassifier 100 42) s = Inr v2"
    and "fit_predict_score lib (SVC ''linear'' 42) s = Inr v3"
    and "fit_predict_score lib (KNeighborsClassifier 5) s = Inr v4"
  shows "run_all (panel lib sv) s =
           (s\<lparr>accuracy_log_reg := Some (fst v0), accuracy_dtree := Some (fst v1),
              accuracy_rf := Some (fst v2), accuracy_svm := Some (fst v3),
              accuracy_knn := Some (fst v4),
              model_comparison := Some (sv
                [(0, ''Logistic Regression'', fst v0), (1, ''Decision Tree'', fst v1),
                 (2, ''Random Forest'', fst v2), (3, ''SVM'', fst v3), (4, ''KNN'', fst v4)])\<rparr>,
            None) \<and>
         run_each (panel lib sv) s =
           (s\<lparr>accuracy_log_reg := Some (fst v0), accuracy_dtree := Some (fst v1),
              accuracy_rf := Some (fst v2), accuracy_svm := Some (fst v3),
              accuracy_knn := Some (fst v4),
              model_comparison := Some (sv
                [(0, ''Logistic Regression'', fst v0), (1, ''Decision Tree'', fst v1),
                 (2, ''Random Forest'', fst v2), (3, ''SVM'', fst v3), (4, ''KNN'', fst v4)])\<rparr>,
            [None, None, None, None, None, None])"
  using assms
  by (simp add: run_all_panel run_each_panel Let_def compare_cell_def step_def read_var_def
      panel_classifiers_def)

lemma one_class_fit:
  "fit small_estimators (LogisticRegression 200) (X_train one_class_nb)
      (map snd (y_train one_class_nb)) = Inl ValueError"
  "fit small_estimators (SVC ''linear'' 42) (X_train one_class_nb)
      (map snd (y_train one_class_nb)) = Inl ValueError"
  by (simp_all add: small_estimators_def one_class_nb_def)

lemma one_class_report:
  "classification_report [0, 0] [0, 0] =
     Inr \<lparr>per_class =
            [\<lparr>label = 0, row_precision = 1, row_recall = 1, row_f1 = 1, row_support = 2\<rparr>],
          accuracy = 1, weighted_precision = 1, weighted_recall = 1, weighted_f1 = 1\<rparr>"
  by (simp add: classification_report_def accuracy_score_def and_then_def unique_labels_def
      precision_def recall_def f1_score_def support_def true_positives_def weighted_avg_def
      Let_def)

lemma one_class_scores:
  "fit_predict_score small_estimators (LogisticRegression 200) one_class_nb = Inl ValueError"
  "fit_predict_score small_estimators (SVC ''linear'' 42) one_class_nb = Inl ValueError"
  "fit_predict_score small_estimators (DecisionTreeClassifier 42) one_class_nb =
     Inr (1, \<lparr>per_class =
            [\<lparr>label = 0, row_precision = 1, row_recall = 1, row_f1 = 1, row_support = 2\<rparr>],
          accuracy = 1, weighted_precision = 1, weighted_recall = 1, weighted_f1 = 1\<rparr>)"
  "fit_predict_score small_estimators (RandomForestClassifier 100 42) one_class_nb =
     Inr (1, \<lparr>per_class =
            [\<lparr>label = 0, row_precision = 1, row_recall = 1, row_f1 = 1, row_support = 2\<rparr>],
          accuracy = 1, weighted_precision = 1, weighted_recall = 1, weighted_f1 = 1\<rparr>)"
  "fit_predict_score small_estimators (KNeighborsClassifier 5) one_class_nb =
     Inr (1, \<lparr>per_class =
            [\<lparr>label = 0, row_precision = 1, row_recall = 1, row_f1 = 1, row_support = 2\<rparr>],
          accuracy = 1, weighted_precision = 1, weighted_recall = 1, weighted_f1 = 1\<rparr>)"
proof -
  have y: "map snd (y_test one_class_nb) = [0, 0]" by (simp add: one_class_nb_def)
  have acc: "accuracy_score [0, 0] [0, 0] = Inr 1" by (simp add: accuracy_score_def)
  have f: "\<And>clf. clf = DecisionTreeClassifier 42 \<or> clf = RandomForestClassifier 100 42 \<or>
      clf = KNeighborsClassifier 5 \<Longrightarrow>
      fit small_estimators clf (X_train one_class_nb) (map snd (y_train one_class_nb)) = Inr [0]"
    by (auto simp: small_estimators_def one_class_nb_def)
  have p: "predict small_estimators [0] (X_test one_class_nb) = Inr [0, 0]"
    by (simp add: small_estimators_def one_class_nb_def)
  show "fit_predict_score small_estimators (LogisticRegression 200) one_class_nb = Inl ValueError"
    "fit_predict_score small_estimators (SVC ''linear'' 42) one_class_nb = Inl ValueError"
    by (simp_all add: fit_fails one_class_fit)
  show "fit_predict_score small_estimators (DecisionTreeClassifier 42) one_class_nb =
     Inr (1, \<lparr>per_class =
            [\<lparr>label = 0, row_precision = 1, row_recall = 1, row_f1 = 1, row_support = 2\<rparr>],
          accuracy = 1, weighted_precision = 1, weighted_recall = 1, weighted_f1 = 1\<rparr>)"
    "fit_predict_score small_estimators (RandomForestClassifier 100 42) one_class_nb =
     Inr (1, \<lparr>per_class =
            [\<lparr>label = 0, row_precision = 1, row_recall = 1, row_f1 = 1, row_support = 2\<rparr>],
          accuracy = 1, weighted_precision = 1, weighted_recall = 1, weighted_f1 = 1\<rparr>)"
    "fit_predict_score small_estimators (KNeighborsClassifier 5) one_class_nb =
     Inr (1, \<lparr>per_class =
            [\<lparr>label = 0, row_precision = 1, row_recall = 1, row_f1 = 1, row_support = 2\<rparr>],
          accuracy = 1, weighted_precision = 1, weighted_recall = 1, weighted_f1 = 1\<rparr>)"
    unfolding fit_predict_score_def
    by (simp_all add: f p y acc one_class_report and_then_def)
qed

lemma one_class_fresh: "\<forall>v\<in>set accuracy_vars. snd v one_class_nb = None"
  by (simp add: accuracy_vars_def one_class_nb_def)

lemma small_wine_fresh: "\<forall>v\<in>set accuracy_vars. snd v small_wine_nb = None"
  by (simp add: accuracy_vars_def small_wine_nb_def)

text \<open>
  C5, as stated, does not hold: no cell catches an exception. On ten rows of one class
  the logistic regression cannot be fitted. Run top to bottom, the notebook stops at that
  cell with the ValueError, no model scored and no report built. Run one cell at a time,
  the tree, the forest and the nearest-neighbour classifier are scored and the support
  vector classifier fails as well; the comparison cell then reads the accuracy that was
  never assigned and raises NameError, so no report is built either.
\<close>

theorem failing_fit_counterexample:
  "preprocess small_generator 0 \<lparr>df = one_class_df\<rparr> = Inr one_class_nb \<and>
   fit small_estimators (LogisticRegression 200) (X_train one_class_nb)
      (map snd (y_train one_class_nb)) = Inl ValueError \<and>
   run_all (panel small_estimators id) one_class_nb = (one_class_nb, Some ValueError) \<and>
   run_each (panel small_estimators id) one_class_nb =
     (one_class_nb\<lparr>accuracy_dtree := Some 1, accuracy_rf := Some 1, accuracy_knn := Some 1\<rparr>,
      [Some ValueError, None, None, Some ValueError, None,
       Some (NameError ''accuracy_log_reg'')]) \<and>
   model_comparison (fst (run_each (panel small_estimators id) one_class_nb)) = None"
proof -
  have a: "run_all (panel small_estimators id) one_class_nb = (one_class_nb, Some ValueError)"
    by (simp add: run_all_panel one_class_scores)
  have fr: "accuracy_log_reg one_class_nb = None" by (simp add: one_class_nb_def)
  have e: "run_each (panel small_estimators id) one_class_nb =
     (one_class_nb\<lparr>accuracy_dtree := Some 1, accuracy_rf := Some 1, accuracy_knn := Some 1\<rparr>,
      [Some ValueError, None, None, Some ValueError, None,
       Some (NameError ''accuracy_log_reg'')])"
    by (simp add: run_each_panel one_class_scores Let_def compare_cell_missing fr
        panel_classifiers_def)
  have m: "model_comparison (fst (run_each (panel small_estimators id) one_class_nb)) = None"
    unfolding e by (simp add: one_class_nb_def)
  show ?thesis using preprocess_one_class[of 0] one_class_fit(1) a e m by simp
qed

text \<open>
  C5, amended. No failure is caught. If the fit or the prediction of a classifier
  raises, its model cell ends with that exception and assigns nothing. Let the variables
  be fresh (no accuracy assigned yet, as after splitting and scaling,
  \<open>preprocess_fresh_vars\<close>), and let the
  \<open>k\<close>-th model cell be the first that raises, with the exception \<open>e\<close>. Run top to bottom,
  the notebook stops there with \<open>e\<close>: the accuracies of the cells before the \<open>k\<close>-th are
  assigned, no other accuracy is, and no report. Run cell by cell, every model cell shows
  its own exception or none, and assigns its accuracy exactly when it does not raise,
  whatever the other cells did; the comparison cell then raises NameError for the \<open>k\<close>-th
  accuracy variable and assigns no report. A report is assigned only when all five model
  cells return: it is then the sort of the five rows (name, accuracy) in the order logistic
  regression, decision tree, random forest, SVM, KNN, and so holds these five rows, given
  that the sort returns the rows it is given.
\<close>

theorem no_failure_is_caught:
  assumes fresh: "\<forall>v\<in>set accuracy_vars. snd v s = None"
  shows "(\<forall>clf e. fit lib clf (X_train s) (map snd (y_train s)) = Inl e \<longrightarrow>
            fit_predict_score lib clf s = Inl e) \<and>
         (\<forall>clf fitted e. fit lib clf (X_train s) (map snd (y_train s)) = Inr fitted \<and>
            predict lib fitted (X_test s) = Inl e \<longrightarrow>
            fit_predict_score lib clf s = Inl e) \<and>
         (\<forall>k<5. \<forall>e.
            fit_predict_score lib (panel_classifiers ! k) s = Inl e \<and>
            (\<forall>i<k. \<exists>v. fit_predict_score lib (panel_classifiers ! i) s = Inr v) \<longrightarrow>
              (model_cells lib ! k) s = (s, Inl e) \<and>
              snd (run_all (panel lib sv) s) = Some e \<and>
              (\<forall>i<5. snd (accuracy_vars ! i) (fst (run_all (panel lib sv) s)) =
                 (if i < k then (case fit_predict_score lib (panel_classifiers ! i) s of
                                   Inl e' \<Rightarrow> None | Inr v \<Rightarrow> Some (fst v))
                  else None)) \<and>
              model_comparison (fst (run_all (panel lib sv) s)) = model_comparison s \<and>
              snd (run_each (panel lib sv) s) ! 5 = Some (NameError (fst (accuracy_vars ! k))) \<and>
              model_comparison (fst (run_each (panel lib sv) s)) = model_comparison s) \<and>
         take 5 (snd (run_each (panel lib sv) s)) =
           map (\<lambda>clf. case fit_predict_score lib clf s of Inl e \<Rightarrow> Some e | Inr v \<Rightarrow> None)
             panel_classifiers \<and>
         length (snd (run_each (panel lib sv) s)) = 6 \<and>
         (\<forall>i<5. snd (accuracy_vars ! i) (fst (run_each (panel lib sv) s)) =
            (case fit_predict_score lib (panel_classifiers ! i) s of
               Inl e \<Rightarrow> None | Inr v \<Rightarrow> Some (fst v))) \<and>
         (\<forall>v0 v1 v2 v3 v4.
            fit_predict_score lib (LogisticRegression 200) s = Inr v0 \<and>
            fit_predict_score lib (DecisionTreeClassifier 42) s = Inr v1 \<and>
            fit_predict_score lib (RandomForestClassifier 100 42) s = Inr v2 \<and>
            fit_predict_score lib (SVC ''linear'' 42) s = Inr v3 \<and>
            fit_predict_score lib (KNeighborsClassifier 5) s = Inr v4 \<longrightarrow>
              run_all (panel lib sv) s =
                (s\<lparr>accuracy_log_reg := Some (fst v0), accuracy_dtree := Some (fst v1),
                   accuracy_rf := Some (fst v2), accuracy_svm := Some (fst v3),
                   accuracy_knn := Some (fst v4),
                   model_comparison := Some (sv
                     [(0, ''Logistic Regression'', fst v0), (1, ''Decision Tree'', fst v1),
                      (2, ''Random Forest'', fst v2), (3, ''SVM'', fst v3),
                      (4, ''KNN'', fst v4)])\<rparr>,
                 None) \<and>
              run_each (panel lib sv) s =
                (fst (run_all (panel lib sv) s), [None, None, None, None, None, None]) \<and>
              (mset (sv [(0, ''Logistic Regression'', fst v0), (1, ''Decision Tree'', fst v1),
                         (2, ''Random Forest'', fst v2), (3, ''SVM'', fst v3),
                         (4, ''KNN'', fst v4)]) =
               mset [(0, ''Logistic Regression'', fst v0), (1, ''Decision Tree'', fst v1),
                     (2, ''Random Forest'', fst v2), (3, ''SVM'', fst v3), (4, ''KNN'', fst v4)] \<longrightarrow>
               (\<exists>report. model_comparison (fst (run_all (panel lib sv) s)) = Some report \<and>
                  mset report =
                    mset [(0, ''Logistic Regression'', fst v0), (1, ''Decision Tree'', fst v1),
                          (2, ''Random Forest'', fst v2), (3, ''SVM'', fst v3),
                          (4, ''KNN'', fst v4)])))"
proof -
  have c1: "\<forall>clf e. fit lib clf (X_train s) (map snd (y_train s)) = Inl e \<longrightarrow>
            fit_predict_score lib clf s = Inl e"
    by (simp add: fit_predict_score_def and_then_def)
  have c2: "\<forall>clf fitted e. fit lib clf (X_train s) (map snd (y_train s)) = Inr fitted \<and>
            predict lib fitted (X_test s) = Inl e \<longrightarrow>
            fit_predict_score lib clf s = Inl e"
    by (simp add: fit_predict_score_def and_then_def)
  have c3: "\<forall>k<5. \<forall>e.
            fit_predict_score lib (panel_classifiers ! k) s = Inl e \<and>
            (\<forall>i<k. \<exists>v. fit_predict_score lib (panel_classifiers ! i) s = Inr v) \<longrightarrow>
              (model_cells lib ! k) s = (s, Inl e) \<and>
              snd (run_all (panel lib sv) s) = Some e \<and>
              (\<forall>i<5. snd (accuracy_vars ! i) (fst (run_all (panel lib sv) s)) =
                 (if i < k then (case fit_predict_score lib (panel_classifiers ! i) s of
                                   Inl e' \<Rightarrow> None | Inr v \<Rightarrow> Some (fst v))
                  else None)) \<and>
              model_comparison (fst (run_all (panel lib sv) s)) = model_comparison s \<and>
              snd (run_each (panel lib sv) s) ! 5 = Some (NameError (fst (accuracy_vars ! k))) \<and>
              model_comparison (fst (run_each (panel lib sv) s)) = model_comparison s"
  proof (intro allI impI)
    fix k e
    assume k: "k < 5"
      and h: "fit_predict_score lib (panel_classifiers ! k) s = Inl e \<and>
            (\<forall>i<k. \<exists>v. fit_predict_score lib (panel_classifiers ! i) s = Inr v)"
    show "(model_cells lib ! k) s = (s, Inl e) \<and>
              snd (run_all (panel lib sv) s) = Some e \<and>
              (\<forall>i<5. snd (accuracy_vars ! i) (fst (run_all (panel lib sv) s)) =
                 (if i < k then (case fit_predict_score lib (panel_classifiers ! i) s of
                                   Inl e' \<Rightarrow> None | Inr v \<Rightarrow> Some (fst v))
                  else None)) \<and>
              model_comparison (fst (run_all (panel lib sv) s)) = model_comparison s \<and>
              snd (run_each (panel lib sv) s) ! 5 = Some (NameError (fst (accuracy_vars ! k))) \<and>
              model_comparison (fst (run_each (panel lib sv) s)) = model_comparison s"
      using stops_at_first_failure[OF fresh k conjunct1[OF h] conjunct2[OF h]] .
  qed
  note c45 = run_each_exceptions[of lib sv s]
  note c6 = run_each_accuracies[OF fresh, of lib sv]
  have c7: "\<forall>v0 v1 v2 v3 v4.
            fit_predict_score lib (LogisticRegression 200) s = Inr v0 \<and>
            fit_predict_score lib (DecisionTreeClassifier 42) s = Inr v1 \<and>
            fit_predict_score lib (RandomForestClassifier 100 42) s = Inr v2 \<and>
            fit_predict_score lib (SVC ''linear'' 42) s = Inr v3 \<and>
            fit_predict_score lib (KNeighborsClassifier 5) s = Inr v4 \<longrightarrow>
              run_all (panel lib sv) s =
                (s\<lparr>accuracy_log_reg := Some (fst v0), accuracy_dtree := Some (fst v1),
                   accuracy_rf := Some (fst v2), accuracy_svm := Some (fst v3),
                   accuracy_knn := Some (fst v4),
                   model_comparison := Some (sv
                     [(0, ''Logistic Regression'', fst v0), (1, ''Decision Tree'', fst v1),
                      (2, ''Random Forest'', fst v2), (3, ''SVM'', fst v3),
                      (4, ''KNN'', fst v4)])\<rparr>,
                 None) \<and>
              run_each (panel lib sv) s =
                (fst (run_all (panel lib sv) s), [None, None, None, None, None, None]) \<and>
              (mset (sv [(0, ''Logistic Regression'', fst v0), (1, ''Decision Tree'', fst v1),
                         (2, ''Random Forest'', fst v2), (3, ''SVM'', fst v3),
                         (4, ''KNN'', fst v4)]) =
               mset [(0, ''Logistic Regression'', fst v0), (1, ''Decision Tree'', fst v1),
                     (2, ''Random Forest'', fst v2), (3, ''SVM'', fst v3), (4, ''KNN'', fst v4)] \<longrightarrow>
               (\<exists>report. model_comparison (fst (run_all (panel lib sv) s)) = Some report \<and>
                  mset report =
                    mset [(0, ''Logistic Regression'', fst v0), (1, ''Decision Tree'', fst v1),
                          (2, ''Random Forest'', fst v2), (3, ''SVM'', fst v3),
                          (4, ''KNN'', fst v4)]))"
  proof (intro allI impI)
    fix v0 v1 v2 v3 v4
    assume h: "fit_predict_score lib (LogisticRegression 200) s = Inr v0 \<and>
            fit_predict_score lib (DecisionTreeClassifier 42) s = Inr v1 \<and>
            fit_predict_score lib (RandomForestClassifier 100 42) s = Inr v2 \<and>
            fit_predict_score lib (SVC ''linear'' 42) s = Inr v3 \<and>
            fit_predict_score lib (KNeighborsClassifier 5) s = Inr v4"
    then have r: "fit_predict_score lib (LogisticRegression 200) s = Inr v0"
      "fit_predict_score lib (DecisionTreeClassifier 42) s = Inr v1"
      "fit_predict_score lib (RandomForestClassifier 100 42) s = Inr v2"
      "fit_predict_score lib (SVC ''linear'' 42) s = Inr v3"
      "fit_predict_score lib (KNeighborsClassifier 5) s = Inr v4"
      by simp_all
    note both = all_fits_succeed[OF r, of sv]
    show "run_all (panel lib sv) s =
                (s\<lparr>accuracy_log_reg := Some (fst v0), accuracy_dtree := Some (fst v1),
                   accuracy_rf := Some (fst v2), accuracy_svm := Some (fst v3),
                   accuracy_knn := Some (fst v4),
                   model_comparison := Some (sv
                     [(0, ''Logistic Regression'', fst v0), (1, ''Decision Tree'', fst v1),
                      (2, ''Random Forest'', fst v2), (3, ''SVM'', fst v3),
                      (4, ''KNN'', fst v4)])\<rparr>,
                 None) \<and>
              run_each (panel lib sv) s =
                (fst (run_all (panel lib sv) s), [None, None, None, None, None, None]) \<and>
              (mset (sv [(0, ''Logistic Regression'', fst v0), (1, ''Decision Tree'', fst v1),
                         (2, ''Random Forest'', fst v2), (3, ''SVM'', fst v3),
                         (4, ''KNN'', fst v4)]) =
               mset [(0, ''Logistic Regression'', fst v0), (1, ''Decision Tree'', fst v1),
                     (2, ''Random Forest'', fst v2), (3, ''SVM'', fst v3), (4, ''KNN'', fst v4)] \<longrightarrow>
               (\<exists>report. model_comparison (fst (run_all (panel lib sv) s)) = Some report \<and>
                  mset report =
                    mset [(0, ''Logistic Regression'', fst v0), (1, ''Decision Tree'', fst v1),
                          (2, ''Random Forest'', fst v2), (3, ''SVM'', fst v3),
                          (4, ''KNN'', fst v4)]))"
      unfolding both[THEN conjunct1] both[THEN conjunct2] by simp
  qed
  show ?thesis
    using c1 c2 c3 c45 c6 c7 by (intro conjI) (rule conjunct1, assumption | rule conjunct2, assumption | assumption)+
qed

theorem no_failure_is_caught_witness:
  "map (\<lambda>v. snd v one_class_nb) accuracy_vars = [None, None, None, None, None] \<and>
   fit small_estimators (panel_classifiers ! 0) (X_train one_class_nb)
      (map snd (y_train one_class_nb)) = Inl ValueError \<and>
   fit_predict_score small_estimators (panel_classifiers ! 0) one_class_nb = Inl ValueError \<and>
   (model_cells small_estimators ! 0) one_class_nb = (one_class_nb, Inl ValueError) \<and>
   snd (run_all (panel small_estimators id) one_class_nb) = Some ValueError \<and>
   snd (run_each (panel small_estimators id) one_class_nb) ! 5 =
     Some (NameError ''accuracy_log_reg'') \<and>
   model_comparison (fst (run_each (panel small_estimators id) one_class_nb)) = None \<and>
   map (\<lambda>v. snd v small_wine_nb) accuracy_vars = [None, None, None, None, None] \<and>
   fit_predict_score small_estimators (LogisticRegression 200) small_wine_nb =
     Inr (1 / 2, small_report) \<and>
   fit_predict_score small_estimators (DecisionTreeClassifier 42) small_wine_nb =
     Inr (1 / 2, small_report) \<and>
   fit_predict_score small_estimators (RandomForestClassifier 100 42) small_wine_nb =
     Inr (1 / 2, small_report) \<and>
   fit_predict_score small_estimators (SVC ''linear'' 42) small_wine_nb =
     Inr (1 / 2, small_report) \<and>
   fit_predict_score small_estimators (KNeighborsClassifier 5) small_wine_nb =
     Inr (1 / 2, small_report) \<and>
   run_all (panel small_estimators id) small_wine_nb =
     (small_wine_nb\<lparr>accuracy_log_reg := Some (1 / 2), accuracy_dtree := Some (1 / 2),
        accuracy_rf := Some (1 / 2), accuracy_svm := Some (1 / 2), accuracy_knn := Some (1 / 2),
        model_comparison := Some
          [(0, ''Logistic Regression'', 1 / 2), (1, ''Decision Tree'', 1 / 2),
           (2, ''Random Forest'', 1 / 2), (3, ''SVM'', 1 / 2), (4, ''KNN'', 1 / 2)]\<rparr>,
      None)"
proof -
  have f1: "map (\<lambda>v. snd v one_class_nb) accuracy_vars = [None, None, None, None, None]"
    by (simp add: accuracy_vars_def one_class_nb_def)
  have f2: "map (\<lambda>v. snd v small_wine_nb) accuracy_vars = [None, None, None, None, None]"
    by (simp add: accuracy_vars_def small_wine_nb_def)
  have fit0: "fit small_estimators (panel_classifiers ! 0) (X_train one_class_nb)
      (map snd (y_train one_class_nb)) = Inl ValueError"
    unfolding panel_classifiers_nth using one_class_fit(1) .
  note bad = no_failure_is_caught[OF one_class_fresh, where lib = small_estimators and sv = id]
  have fps0: "fit_predict_score small_estimators (panel_classifiers ! 0) one_class_nb =
      Inl ValueError"
    using bad[THEN conjunct1, rule_format, OF fit0] .
  have k: "(0::nat) < 5" by simp
  have first: "fit_predict_score small_estimators (panel_classifiers ! 0) one_class_nb =
      Inl ValueError \<and>
      (\<forall>i<0. \<exists>v. fit_predict_score small_estimators (panel_classifiers ! i) one_class_nb = Inr v)"
    using fps0 by simp
  note stop = bad[THEN conjunct2, THEN conjunct2, THEN conjunct1, rule_format, OF k first]
  have cell: "(model_cells small_estimators ! 0) one_class_nb = (one_class_nb, Inl ValueError)"
    using stop by (rule conjunct1)
  have ra: "snd (run_all (panel small_estimators id) one_class_nb) = Some ValueError"
    using stop[THEN conjunct2] by (rule conjunct1)
  have ne: "snd (run_each (panel small_estimators id) one_class_nb) ! 5 =
     Some (NameError ''accuracy_log_reg'')"
    using stop[THEN conjunct2, THEN conjunct2, THEN conjunct2, THEN conjunct2, THEN conjunct1]
    by (simp add: accuracy_vars_nth)
  have mc: "model_comparison (fst (run_each (panel small_estimators id) one_class_nb)) = None"
    using stop[THEN conjunct2, THEN conjunct2, THEN conjunct2, THEN conjunct2, THEN conjunct2]
    by (simp add: one_class_nb_def)
  note good = no_failure_is_caught[OF small_wine_fresh, where lib = small_estimators and sv = id]
  note all = good[THEN conjunct2, THEN conjunct2, THEN conjunct2, THEN conjunct2,
      THEN conjunct2, THEN conjunct2, rule_format,
      of "(1 / 2, small_report)" "(1 / 2, small_report)" "(1 / 2, small_report)"
        "(1 / 2, small_report)" "(1 / 2, small_report)"]
  have five: "fit_predict_score small_estimators (LogisticRegression 200) small_wine_nb =
       Inr (1 / 2, small_report) \<and>
     fit_predict_score small_estimators (DecisionTreeClassifier 42) small_wine_nb =
       Inr (1 / 2, small_report) \<and>
     fit_predict_score small_estimators (RandomForestClassifier 100 42) small_wine_nb =
       Inr (1 / 2, small_report) \<and>
     fit_predict_score small_estimators (SVC ''linear'' 42) small_wine_nb =
       Inr (1 / 2, small_report) \<and>
     fit_predict_score small_estimators (KNeighborsClassifier 5) small_wine_nb =
       Inr (1 / 2, small_report)"
    by (simp add: small_fit_predict_score)
  have run: "run_all (panel small_estimators id) small_wine_nb =
     (small_wine_nb\<lparr>accuracy_log_reg := Some (1 / 2), accuracy_dtree := Some (1 / 2),
        accuracy_rf := Some (1 / 2), accuracy_svm := Some (1 / 2), accuracy_knn := Some (1 / 2),
        model_comparison := Some
          [(0, ''Logistic Regression'', 1 / 2), (1, ''Decision Tree'', 1 / 2),
           (2, ''Random Forest'', 1 / 2), (3, ''SVM'', 1 / 2), (4, ''KNN'', 1 / 2)]\<rparr>,
      None)"
    using all[OF five, THEN conjunct1] by simp
  show ?thesis
    using f1 fit0 fps0 cell ra ne mc f2 five run by (intro conjI) simp_all
qed

subsection \<open>The verdicts\<close>

lemma texts_simps [simp]:
  "texts (TStat t p # ps) = texts ps"
  "texts (Interval l u # ps) = texts ps"
  "texts (Table f p # ps) = texts ps"
  "texts (Summary xs # ps) = texts ps"
  by simp_all


lemma df8_columns:
  "get_numeric df8 ''bmi'' = Inr [-1, 1, -0.5, 0.5, -0.25, 0.25, -2, 2]"
  "get_numeric df8 ''bp'' = Inr [0.5, -0.5, 0.25, -0.25, 1, -1, 2, -2]"
  "get_numeric df8 ''s1'' = Inr [-0.5, 0.5, -0.25, 0.25, -1, 1, -2, 2]"
  "get_numeric df8 ''target'' = Inr [50, 60, 70, 80, 150, 160, 170, 180]"
  by (simp_all add: get_numeric_def getitem_def and_then_def df8_def)

lemma median_df8: "median [50, 60, 70, 80, 150, 160, 170, 180] = Some 115"
  by (simp add: median_def Let_def)

lemma median_split_df8:
  "median_split df8 =
     Inr ([(0, -1), (1, 1), (2, -0.5), (3, 0.5)], [(4, -0.25), (5, 0.25), (6, -2), (7, 2)])"
  unfolding median_split_def df8_columns and_then_def sum.case Let_def median_df8
  by (simp add: series_of_def select_rows_def get_numeric_def getitem_def and_then_def df8_def
      le_float_def gt_float_def mask_list_def)

lemma anova_df8:
  "anova_cell small_stats \<lparr>df = df8\<rparr> =
     (\<lparr>df = df8_quartiles\<rparr>,
      Inr [Text ''One-Way ANOVA for Target across BMI Quartiles:'', Table (1 / 78) 0.99])"
  by (simp add: anova_cell_def step_def get_numeric_def getitem_def and_then_def df8_def
      df8_quartiles_def small_stats_def setitem_def col_length_def Let_def)

lemma regression_df8:
  "regression_cell small_stats \<lparr>df = df8\<rparr> =
     (\<lparr>df = df8\<rparr>, Inr [Text ''Simple Linear Regression (BMI vs Target):'', Summary [115, 60 / 17]])"
  by (simp add: regression_cell_def step_def df8_columns small_stats_def)

lemma ci_df8:
  "ci_cell small_stats \<lparr>df = df8\<rparr> = (\<lparr>df = df8\<rparr>, Inr [Interval (- 0.4) 0.4])"
  by (simp add: ci_cell_def step_def df8_columns small_stats_def mean_def Let_def)

text \<open>
  C3, as stated, does not hold of every statistical procedure. The ANOVA cell computes
  a p-value (that of F) and prints the table with it, and the regression cell prints the
  summary of the fitted model, but neither prints a verdict: on the eight rows, where both
  return, the only line of text that each prints is its heading.
\<close>

theorem anova_prints_no_verdict:
  "map_sum id texts (snd (anova_cell small_stats \<lparr>df = df8\<rparr>)) =
     Inr [''One-Way ANOVA for Target across BMI Quartiles:''] \<and>
   map_sum id texts (snd (regression_cell small_stats \<lparr>df = df8\<rparr>)) =
     Inr [''Simple Linear Regression (BMI vs Target):'']"
  by (simp add: anova_df8 regression_df8)

text \<open>
  C3, amended. Each of the three t-test cells, when it returns, prints its heading, the
  statistic and the p-value of its own test, and one verdict: the cell's rejection line
  when that p-value is below 0.05 and the cell's fail-to-reject line when it is not, so
  the verdict is a function of that p-value alone. The cells of the confidence interval,
  the ANOVA and the regression print no verdict: the interval cell prints no line of text
  but the interval, and the two others no line of text but their heading.
\<close>

theorem ttest_cells_print_own_verdict:
  "(\<forall>bmi. get_numeric (df s) ''bmi'' = Inr bmi \<longrightarrow>
      one_sample_cell lib s =
        (s, Inr [Text ''One-Sample t-Test for BMI:'',
                 TStat (fst (ttest_1samp lib bmi 0)) (snd (ttest_1samp lib bmi 0)),
                 Text (if snd (ttest_1samp lib bmi 0) < 0.05
                       then ''Reject the null hypothesis: The mean is significantly different from 0.''
                       else ''Fail to reject the null hypothesis: The mean is not significantly different from 0.'')])) \<and>
   (\<forall>group1 group2. median_split (df s) = Inr (group1, group2) \<longrightarrow>
      two_sample_cell lib s =
        (s, Inr [Text ''Two-Sample t-Test for BMI:'',
                 TStat (fst (ttest_ind lib (map snd group1) (map snd group2)))
                       (snd (ttest_ind lib (map snd group1) (map snd group2))),
                 Text (if snd (ttest_ind lib (map snd group1) (map snd group2)) < 0.05
                       then ''Reject the null hypothesis: The means of the two groups are significantly different.''
                       else ''Fail to reject the null hypothesis: The means of the two groups are not significantly different.'')])) \<and>
   (\<forall>bp s1. get_numeric (df s) ''bp'' = Inr bp \<and> get_numeric (df s) ''s1'' = Inr s1 \<longrightarrow>
      paired_cell lib s =
        (s, Inr [Text ''Paired t-Test for BP and S1:'',
                 TStat (fst (ttest_rel lib bp s1)) (snd (ttest_rel lib bp s1)),
                 Text (if snd (ttest_rel lib bp s1) < 0.05
                       then ''Reject the null hypothesis: The means of the paired samples are significantly different.''
                       else ''Fail to reject the null hypothesis: The means of the paired samples are not significantly different.'')])) \<and>
   (\<forall>out. snd (ci_cell lib s) = Inr out \<longrightarrow> texts out = []) \<and>
   (\<forall>out. snd (anova_cell lib s) = Inr out \<longrightarrow>
      texts out = [''One-Way ANOVA for Target across BMI Quartiles:'']) \<and>
   (\<forall>out. snd (regression_cell lib s) = Inr out \<longrightarrow>
      texts out = [''Simple Linear Regression (BMI vs Target):''])"
proof (intro conjI allI impI)
  fix bmi assume "get_numeric (df s) ''bmi'' = Inr bmi"
  then show "one_sample_cell lib s =
        (s, Inr [Text ''One-Sample t-Test for BMI:'',
                 TStat (fst (ttest_1samp lib bmi 0)) (snd (ttest_1samp lib bmi 0)),
                 Text (if snd (ttest_1samp lib bmi 0) < 0.05
                       then ''Reject the null hypothesis: The mean is significantly different from 0.''
                       else ''Fail to reject the null hypothesis: The mean is not significantly different from 0.'')])"
    by (simp add: one_sample_cell_def step_def one_sample_verdict_def split: prod.splits)
next
  fix group1 group2 assume "median_split (df s) = Inr (group1, group2)"
  then show "two_sample_cell lib s =
        (s, Inr [Text ''Two-Sample t-Test for BMI:'',
                 TStat (fst (ttest_ind lib (map snd group1) (map snd group2)))
                       (snd (ttest_ind lib (map snd group1) (map snd group2))),
                 Text (if snd (ttest_ind lib (map snd group1) (map snd group2)) < 0.05
                       then ''Reject the null hypothesis: The means of the two groups are significantly different.''
                       else ''Fail to reject the null hypothesis: The means of the two groups are not significantly different.'')])"
    by (simp add: two_sample_cell_def step_def two_sample_verdict_def split: prod.splits)
next
  fix bp s1 assume "get_numeric (df s) ''bp'' = Inr bp \<and> get_numeric (df s) ''s1'' = Inr s1"
  then show "paired_cell lib s =
        (s, Inr [Text ''Paired t-Test for BP and S1:'',
                 TStat (fst (ttest_rel lib bp s1)) (snd (ttest_rel lib bp s1)),
                 Text (if snd (ttest_rel lib bp s1) < 0.05
                       then ''Reject the null hypothesis: The means of the paired samples are significantly different.''
                       else ''Fail to reject the null hypothesis: The means of the paired samples are not significantly different.'')])"
    by (simp add: paired_cell_def step_def paired_verdict_def split: prod.splits)
next
  fix out assume "snd (ci_cell lib s) = Inr out"
  then show "texts out = []"
    by (auto simp: ci_cell_def step_def Let_def split: sum.splits prod.splits)
next
  fix out assume "snd (anova_cell lib s) = Inr out"
  then show "texts out = [''One-Way ANOVA for Target across BMI Quartiles:'']"
    by (auto simp: anova_cell_def step_def Let_def split: sum.splits prod.splits)
next
  fix out assume "snd (regression_cell lib s) = Inr out"
  then show "texts out = [''Simple Linear Regression (BMI vs Target):'']"
    by (auto simp: regression_cell_def step_def split: sum.splits prod.splits)
qed

theorem ttest_cells_print_own_verdict_witness:
  "get_numeric df8 ''bmi'' = Inr [-1, 1, -0.5, 0.5, -0.25, 0.25, -2, 2] \<and>
   one_sample_cell small_stats \<lparr>df = df8\<rparr> =
     (\<lparr>df = df8\<rparr>,
      Inr [Text ''One-Sample t-Test for BMI:'', TStat 0 1,
           Text ''Fail to reject the null hypothesis: The mean is not significantly different from 0.'']) \<and>
   median_split df8 =
     Inr ([(0, -1), (1, 1), (2, -0.5), (3, 0.5)], [(4, -0.25), (5, 0.25), (6, -2), (7, 2)]) \<and>
   two_sample_cell small_stats \<lparr>df = df8\<rparr> =
     (\<lparr>df = df8\<rparr>,
      Inr [Text ''Two-Sample t-Test for BMI:'', TStat 0 1,
           Text ''Fail to reject the null hypothesis: The means of the two groups are not significantly different.'']) \<and>
   get_numeric df8 ''bp'' = Inr [0.5, -0.5, 0.25, -0.25, 1, -1, 2, -2] \<and>
   get_numeric df8 ''s1'' = Inr [-0.5, 0.5, -0.25, 0.25, -1, 1, -2, 2] \<and>
   paired_cell small_stats \<lparr>df = df8\<rparr> =
     (\<lparr>df = df8\<rparr>,
      Inr [Text ''Paired t-Test for BP and S1:'', TStat 0 1,
           Text ''Fail to reject the null hypothesis: The means of the paired samples are not significantly different.'']) \<and>
   map_sum id texts (snd (ci_cell small_stats \<lparr>df = df8\<rparr>)) = Inr [] \<and>
   map_sum id texts (snd (anova_cell small_stats \<lparr>df = df8\<rparr>)) =
     Inr [''One-Way ANOVA for Target across BMI Quartiles:''] \<and>
   map_sum id texts (snd (regression_cell small_stats \<lparr>df = df8\<rparr>)) =
     Inr [''Simple Linear Regression (BMI vs Target):'']"
proof -
  note inst = ttest_cells_print_own_verdict[where s = "\<lparr>df = df8\<rparr>" and lib = small_stats]
  have one: "one_sample_cell small_stats \<lparr>df = df8\<rparr> =
     (\<lparr>df = df8\<rparr>,
      Inr [Text ''One-Sample t-Test for BMI:'', TStat 0 1,
           Text ''Fail to reject the null hypothesis: The mean is not significantly different from 0.''])"
    using inst[THEN conjunct1, rule_format, of "[-1, 1, -0.5, 0.5, -0.25, 0.25, -2, 2]"]
      df8_columns(1)
    by (simp add: small_stats_def)
  have two: "two_sample_cell small_stats \<lparr>df = df8\<rparr> =
     (\<lparr>df = df8\<rparr>,
      Inr [Text ''Two-Sample t-Test for BMI:'', TStat 0 1,
           Text ''Fail to reject the null hypothesis: The means of the two groups are not significantly different.''])"
    using inst[THEN conjunct2, THEN conjunct1, rule_format,
        of "[(0, -1), (1, 1), (2, -0.5), (3, 0.5)]" "[(4, -0.25), (5, 0.25), (6, -2), (7, 2)]"]
      median_split_df8
    by (simp add: small_stats_def)
  have three: "paired_cell small_stats \<lparr>df = df8\<rparr> =
     (\<lparr>df = df8\<rparr>,
      Inr [Text ''Paired t-Test for BP and S1:'', TStat 0 1,
           Text ''Fail to reject the null hypothesis: The means of the paired samples are not significantly different.''])"
    using inst[THEN conjunct2, THEN conjunct2, THEN conjunct1, rule_format,
        of "[0.5, -0.5, 0.25, -0.25, 1, -1, 2, -2]" "[-0.5, 0.5, -0.25, 0.25, -1, 1, -2, 2]"]
      df8_columns(2,3)
    by (simp add: small_stats_def)
  have ci: "snd (ci_cell small_stats \<lparr>df = df8\<rparr>) = Inr [Interval (- 0.4) 0.4]"
    by (simp add: ci_df8)
  have an: "snd (anova_cell small_stats \<lparr>df = df8\<rparr>) =
     Inr [Text ''One-Way ANOVA for Target across BMI Quartiles:'', Table (1 / 78) 0.99]"
    by (simp add: anova_df8)
  have t1: "texts [Interval (- 0.4) 0.4] = []"
    using inst[THEN conjunct2, THEN conjunct2, THEN conjunct2, THEN conjunct1, rule_format, OF ci] .
  have t2: "texts [Text ''One-Way ANOVA for Target across BMI Quartiles:'', Table (1 / 78) 0.99] =
     [''One-Way ANOVA for Target across BMI Quartiles:'']"
    using inst[THEN conjunct2, THEN conjunct2, THEN conjunct2, THEN conjunct2, THEN conjunct1,
        rule_format, OF an] .
  have re: "snd (regression_cell small_stats \<lparr>df = df8\<rparr>) =
     Inr [Text ''Simple Linear Regression (BMI vs Target):'', Summary [115, 60 / 17]]"
    by (simp add: regression_df8)
  have t3: "texts [Text ''Simple Linear Regression (BMI vs Target):'', Summary [115, 60 / 17]] =
     [''Simple Linear Regression (BMI vs Target):'']"
    using inst[THEN conjunct2, THEN conjunct2, THEN conjunct2, THEN conjunct2, THEN conjunct2,
        rule_format, OF re] .
  show ?thesis
    unfolding ci an re map_sum.simps t1 t2 t3
    using df8_columns(1,2,3) one median_split_df8 two three by simp
qed

subsection \<open>The loaded frame\<close>


















end
